theory Spec2Isabelle
  imports Complex_Main "HOL-Library.Multiset"
begin

section \<open>Values, time and JavaScript idioms\<close>

text \<open>
  Record ids are strings. A \<^verbatim>\<open>Date\<close> is its epoch time in milliseconds. An amount is
  a JavaScript number: a finite double, modelled as the real number it denotes. The
  arithmetic on amounts is that of doubles, each operation rounding its exact result
  (section on double arithmetic below).
\<close>

type_synonym ident = string
type_synonym timestamp = int
type_synonym money = real

definition msPerDay :: int where
  "msPerDay = 86400000"

text \<open>
  \<^verbatim>\<open>d.toDateString()\<close> names the local calendar day of \<open>d\<close>; two such strings are
  equal exactly when the days are. The day is represented by its number, for a local
  time zone \<open>tz\<close> milliseconds ahead of UTC.
\<close>

definition toDateString :: "int \<Rightarrow> timestamp \<Rightarrow> int" where
  "toDateString tz t = (t + tz) div msPerDay"

text \<open>\<^verbatim>\<open>today.setHours(0, 0, 0, 0)\<close> and \<^verbatim>\<open>todayEnd.setHours(23, 59, 59, 999)\<close>.\<close>

definition startOfDay :: "int \<Rightarrow> timestamp \<Rightarrow> timestamp" where
  "startOfDay tz t = t - (t + tz) mod msPerDay"

definition endOfDay :: "int \<Rightarrow> timestamp \<Rightarrow> timestamp" where
  "endOfDay tz t = startOfDay tz t + (msPerDay - 1)"

text \<open>\<^verbatim>\<open>d.toISOString().split('T')[0]\<close>: the UTC calendar day.\<close>

definition isoDate :: "timestamp \<Rightarrow> int" where
  "isoDate t = t div msPerDay"

text \<open>Truthiness of an optional string, and the idioms \<^verbatim>\<open>a || b\<close>, \<^verbatim>\<open>x || 0\<close>.\<close>

definition truthy :: "string option \<Rightarrow> bool" where
  "truthy s = (case s of None \<Rightarrow> False | Some x \<Rightarrow> x \<noteq> [])"

definition orElse :: "string option \<Rightarrow> string \<Rightarrow> string" where
  "orElse s d = (case s of None \<Rightarrow> d | Some x \<Rightarrow> if x = [] then d else x)"

definition orZero :: "money option \<Rightarrow> money" where
  "orZero x = (case x of None \<Rightarrow> 0 | Some v \<Rightarrow> v)"

text \<open>
  \<^verbatim>\<open>items.sort(cmp)\<close>: a stable sort by the comparator (ECMAScript 2019), modelled as
  insertion from the right end, each element going before the first one it does not
  exceed.
\<close>

fun insertBy :: "('a \<Rightarrow> 'a \<Rightarrow> int) \<Rightarrow> 'a \<Rightarrow> 'a list \<Rightarrow> 'a list" where
  "insertBy cmp x [] = [x]"
| "insertBy cmp x (y # ys) = (if cmp x y \<le> 0 then x # y # ys else y # insertBy cmp x ys)"

definition jsSort :: "('a \<Rightarrow> 'a \<Rightarrow> int) \<Rightarrow> 'a list \<Rightarrow> 'a list" where
  "jsSort cmp xs = foldr (insertBy cmp) xs []"

text \<open>\<^verbatim>\<open>ids.join(',')\<close>.\<close>

fun joinComma :: "string list \<Rightarrow> string" where
  "joinComma [] = []"
| "joinComma [x] = x"
| "joinComma (x # y # ys) = x @ '','' @ joinComma (y # ys)"

section \<open>Double arithmetic\<close>

text \<open>
  \<^verbatim>\<open>+\<close>, \<^verbatim>\<open>-\<close>, \<^verbatim>\<open>*\<close> and \<^verbatim>\<open>/\<close> on numbers are the IEEE 754 binary64 operations:
  the exact result, rounded to the nearest double, ties to the even significand.

  \<open>binExp fuel x\<close> is the binary exponent of a positive \<open>x\<close>, the \<open>e\<close> with
  \<open>2^e \<le> x < 2^(e+1)\<close>, found by doubling or halving at most \<open>fuel\<close> times; doubles
  have exponents from -1074 to 1023, so 1100 steps reach every exponent that matters.
\<close>

fun binExp :: "nat \<Rightarrow> real \<Rightarrow> int" where
  "binExp fuel x =
     (if fuel = 0 then 0
      else if x < 1 then binExp (fuel - 1) (2 * x) - 1
      else if 2 \<le> x then binExp (fuel - 1) (x / 2) + 1
      else 0)"

declare binExp.simps [simp del]

text \<open>\<open>x * 2^k\<close> for an integer \<open>k\<close> of either sign.\<close>

definition scaleTwo :: "real \<Rightarrow> int \<Rightarrow> real" where
  "scaleTwo x k = (if 0 \<le> k then x * 2 ^ nat k else x / 2 ^ nat (- k))"

text \<open>The integer nearest to \<open>y\<close>, the even one of two equally near.\<close>

definition roundHalfEven :: "real \<Rightarrow> int" where
  "roundHalfEven y =
     (let f = \<lfloor>y\<rfloor>; d = y - of_int f
      in if d < 1 / 2 then f
         else if 1 / 2 < d then f + 1
         else if even f then f else f + 1)"

text \<open>
  The double nearest to \<open>x\<close>, were the exponent unbounded above: a significand of 53
  bits at the exponent of \<open>x\<close>, and of fewer bits below the exponent -1022 (subnormal
  numbers, down to zero).
\<close>

definition roundNearest :: "real \<Rightarrow> real" where
  "roundNearest x =
     (if x = 0 then 0
      else (let e = max (binExp 1100 \<bar>x\<bar>) (- 1022)
            in scaleTwo (of_int (roundHalfEven (scaleTwo x (52 - e)))) (e - 52)))"

text \<open>
  The result of an operation whose exact value is \<open>x\<close>: the nearest double, and None
  when that passes the largest double, where JavaScript gives \<^verbatim>\<open>Infinity\<close>. None stands
  for every number that is not finite (\<^verbatim>\<open>Infinity\<close>, \<^verbatim>\<open>-Infinity\<close>, \<^verbatim>\<open>NaN\<close>).
\<close>

definition roundDouble :: "real \<Rightarrow> real option" where
  "roundDouble x = (let r = roundNearest x in if 2 ^ 1024 \<le> \<bar>r\<bar> then None else Some r)"

text \<open>
  The four operations. An operand that is not finite gives a result that is not finite
  (the calculator never divides by such a number); so does a division by zero.
\<close>

definition jsAdd :: "real option \<Rightarrow> real option \<Rightarrow> real option" where
  "jsAdd a b = (case (a, b) of (Some x, Some y) \<Rightarrow> roundDouble (x + y) | _ \<Rightarrow> None)"

definition jsSub :: "real option \<Rightarrow> real option \<Rightarrow> real option" where
  "jsSub a b = (case (a, b) of (Some x, Some y) \<Rightarrow> roundDouble (x - y) | _ \<Rightarrow> None)"

definition jsMul :: "real option \<Rightarrow> real option \<Rightarrow> real option" where
  "jsMul a b = (case (a, b) of (Some x, Some y) \<Rightarrow> roundDouble (x * y) | _ \<Rightarrow> None)"

definition jsDiv :: "real option \<Rightarrow> real option \<Rightarrow> real option" where
  "jsDiv a b =
     (case (a, b) of
        (Some x, Some y) \<Rightarrow> if y = 0 then None else roundDouble (x / y)
      | _ \<Rightarrow> None)"

text \<open>A real number that is a double: rounding leaves it as it is.\<close>

definition isDouble :: "real \<Rightarrow> bool" where
  "isDouble x = (roundDouble x = Some x)"

section \<open>Data model (src/lib/db/schema.ts)\<close>

text \<open>
  The appointment type is declared outside the source files at hand; its fields are the
  ones the pages read through their casts.
\<close>

record Appointment =
  apt_id :: ident
  apt_patientId :: ident
  appointmentDate :: timestamp
  apt_status :: string
  apt_feeAmount :: "money option"
  apt_feeType :: "string option"
  apt_feeStatus :: "string option"

record DoctorVisit =
  visit_id :: ident
  visit_patientId :: ident
  visitNumber :: int

record DoctorPrescription =
  rx_id :: ident
  rx_visitId :: ident
  rx_medicine :: string
  rowOrder :: int

record PharmacyQueueItem =
  pq_id :: ident
  pq_visitId :: ident
  pq_patientId :: ident
  pq_appointmentId :: "ident option"
  pq_prescriptionIds :: "ident list"
  priority :: bool
  pq_status :: string
  stopReason :: "string option"
  preparedBy :: "string option"
  pq_createdAt :: timestamp

datatype BillingStatus = Pending | Paid | Completed

record BillingQueueItem =
  bq_id :: ident
  bq_visitId :: ident
  bq_patientId :: ident
  bq_appointmentId :: "ident option"
  bq_prescriptionIds :: "ident list"
  bq_status :: BillingStatus
  feeAmount :: money
  feeType :: string
  discountPercent :: "money option"
  discountAmount :: "money option"
  netAmount :: money
  paymentMethod :: "string option"
  paymentStatus :: string
  receiptNumber :: "string option"
  bq_createdAt :: timestamp

record BillingReceiptItem =
  description :: string
  ri_quantity :: int
  unitPrice :: money
  total :: money

record BillingReceipt =
  rc_id :: ident
  rc_receiptNumber :: string
  rc_billingQueueId :: ident
  rc_patientId :: ident
  rc_visitId :: ident
  rc_items :: "BillingReceiptItem list"
  rc_subtotal :: money
  rc_discountPercent :: "money option"
  rc_discountAmount :: "money option"
  rc_netAmount :: money
  rc_paymentMethod :: string
  rc_paymentStatus :: string
  rc_createdAt :: timestamp

text \<open>The fee-history record, with the fields \<^verbatim>\<open>handleComplete\<close> writes.\<close>

record FeeHistory =
  fh_id :: ident
  fh_patientId :: ident
  fh_visitId :: ident
  fh_receiptId :: string
  fh_feeType :: string
  fh_amount :: money
  fh_paymentMethod :: string
  fh_paymentStatus :: string
  fh_paidDate :: timestamp

text \<open>A line of the medicine bill being edited (the \<^verbatim>\<open>billItems\<close> state).\<close>

record BillLine =
  bl_prescriptionId :: ident
  bl_medicine :: string
  bl_potency :: "string option"
  bl_quantity :: int
  bl_amount :: money

section \<open>Medicine billing calculator (billing page)\<close>

text \<open>
  \<^verbatim>\<open>billItems.reduce((sum, item) => sum + (item.amount || 0), 0)\<close>; for a finite amount,
  \<^verbatim>\<open>amount || 0\<close> is the amount itself. The functions return None for a result that is
  not finite. \<open>billDiscount\<close> and \<open>billTax\<close> are the two percent states of the page.
\<close>

definition getBillSubtotal :: "BillLine list \<Rightarrow> money option" where
  "getBillSubtotal billItems =
     foldl (\<lambda>sum item. jsAdd sum (Some (orZero (Some (bl_amount item))))) (Some 0) billItems"

definition getBillDiscountAmount :: "BillLine list \<Rightarrow> money \<Rightarrow> money option" where
  "getBillDiscountAmount billItems billDiscount =
     jsDiv (jsMul (getBillSubtotal billItems) (Some billDiscount)) (Some 100)"

definition getBillTaxAmount :: "BillLine list \<Rightarrow> money \<Rightarrow> money \<Rightarrow> money option" where
  "getBillTaxAmount billItems billDiscount billTax =
     jsDiv (jsMul (jsSub (getBillSubtotal billItems)
                         (getBillDiscountAmount billItems billDiscount))
                  (Some billTax)) (Some 100)"

definition getBillTotal :: "BillLine list \<Rightarrow> money \<Rightarrow> money \<Rightarrow> money option" where
  "getBillTotal billItems billDiscount billTax =
     jsAdd (jsSub (getBillSubtotal billItems) (getBillDiscountAmount billItems billDiscount))
           (getBillTaxAmount billItems billDiscount billTax)"

text \<open>A bill line carrying only an amount, for the calculator scenarios.\<close>

definition amountLine :: "money \<Rightarrow> BillLine" where
  "amountLine a = \<lparr>bl_prescriptionId = [], bl_medicine = [], bl_potency = None,
     bl_quantity = 1, bl_amount = a\<rparr>"

section \<open>The record store\<close>

text \<open>
  The collections the two pages work on. \<open>idSeq\<close> counts the ids handed out and
  \<open>receiptSeq\<close> the receipt numbers.
\<close>

record Db =
  appointments :: "Appointment list"
  visits :: "DoctorVisit list"
  prescriptions :: "DoctorPrescription list"
  pharmacyQueue :: "PharmacyQueueItem list"
  billingQueue :: "BillingQueueItem list"
  billingReceipts :: "BillingReceipt list"
  feeHistory :: "FeeHistory list"
  idSeq :: nat
  receiptSeq :: nat

text \<open>
  What a handler takes from its surroundings: the clock (\<^verbatim>\<open>new Date()\<close>), the local
  time zone, the store's id generator and the format of receipt numbers.
\<close>

record Env =
  now :: timestamp
  tzOffset :: int
  genId :: "nat \<Rightarrow> ident"
  fmtReceipt :: "nat \<Rightarrow> string"

text \<open>
  Modelled from the spec: \<^verbatim>\<open>appointmentDb.getById\<close> of \<^verbatim>\<open>@/lib/db/database\<close>, which is
  not among the source files (section 6: appointment lookup by id gives the record or
  absent).
\<close>

definition appointmentGetById :: "Db \<Rightarrow> ident \<Rightarrow> Appointment option" where
  "appointmentGetById db aid = find (\<lambda>a. apt_id a = aid) (appointments db)"

text \<open>
  Modelled from the spec: \<^verbatim>\<open>appointmentDb.getByPatient\<close> (section 6: lookup by patientId
  returns all, the caller filters by date).
\<close>

definition appointmentGetByPatient :: "Db \<Rightarrow> ident \<Rightarrow> Appointment list" where
  "appointmentGetByPatient db pid = filter (\<lambda>a. apt_patientId a = pid) (appointments db)"

text \<open>
  Modelled from the spec: \<^verbatim>\<open>appointmentDb.update(id, partialFields)\<close> (section 6); the
  partial fields are a function on the record.
\<close>

definition appointmentUpdate :: "ident \<Rightarrow> (Appointment \<Rightarrow> Appointment) \<Rightarrow> Db \<Rightarrow> Db" where
  "appointmentUpdate aid f db =
     db\<lparr>appointments := map (\<lambda>a. if apt_id a = aid then f a else a) (appointments db)\<rparr>"

text \<open>
  Modelled from the spec: \<^verbatim>\<open>doctorVisitDb.getById\<close> of \<^verbatim>\<open>@/lib/db/doctor-panel\<close>
  (section 6: visit lookup by id gives the record or absent).
\<close>

definition visitGetById :: "Db \<Rightarrow> ident \<Rightarrow> DoctorVisit option" where
  "visitGetById db vid = find (\<lambda>v. visit_id v = vid) (visits db)"

text \<open>
  Modelled from the spec: \<^verbatim>\<open>doctorPrescriptionDb.getByVisit\<close> (section 6: prescription
  lookup by visitId gives a sequence ordered by \<open>rowOrder\<close>).
\<close>

definition prescriptionGetByVisit :: "Db \<Rightarrow> ident \<Rightarrow> DoctorPrescription list" where
  "prescriptionGetByVisit db vid =
     sort_key rowOrder (filter (\<lambda>p. rx_visitId p = vid) (prescriptions db))"

text \<open>
  Modelled from the spec: \<^verbatim>\<open>pharmacyQueueDb.getById\<close> and \<^verbatim>\<open>pharmacyQueueDb.update\<close>
  (section 6: generic read and update of a queue collection).
\<close>

definition pharmacyGetById :: "Db \<Rightarrow> ident \<Rightarrow> PharmacyQueueItem option" where
  "pharmacyGetById db i = find (\<lambda>p. pq_id p = i) (pharmacyQueue db)"

definition pharmacyUpdate ::
  "ident \<Rightarrow> (PharmacyQueueItem \<Rightarrow> PharmacyQueueItem) \<Rightarrow> Db \<Rightarrow> Db" where
  "pharmacyUpdate i f db =
     db\<lparr>pharmacyQueue := map (\<lambda>p. if pq_id p = i then f p else p) (pharmacyQueue db)\<rparr>"

text \<open>
  Modelled from the spec: \<^verbatim>\<open>pharmacyQueueDb.markPrepared(id, by)\<close> (section 4.2:
  transitions to prepared and records \<open>preparedBy\<close>; a no-op when the id does not exist).
\<close>

definition pharmacyMarkPrepared :: "ident \<Rightarrow> string \<Rightarrow> Db \<Rightarrow> Db" where
  "pharmacyMarkPrepared i who db =
     pharmacyUpdate i (\<lambda>p. p\<lparr>pq_status := ''prepared'', preparedBy := Some who\<rparr>) db"

text \<open>
  Modelled from the spec: \<^verbatim>\<open>billingQueueDb.getById\<close> and \<^verbatim>\<open>billingQueueDb.update\<close>
  (section 6: generic read and update of a queue collection).
\<close>

definition billingGetById :: "Db \<Rightarrow> ident \<Rightarrow> BillingQueueItem option" where
  "billingGetById db i = find (\<lambda>b. bq_id b = i) (billingQueue db)"

definition billingUpdate ::
  "ident \<Rightarrow> (BillingQueueItem \<Rightarrow> BillingQueueItem) \<Rightarrow> Db \<Rightarrow> Db" where
  "billingUpdate i f db =
     db\<lparr>billingQueue := map (\<lambda>b. if bq_id b = i then f b else b) (billingQueue db)\<rparr>"

text \<open>
  Modelled from the spec: \<^verbatim>\<open>billingQueueDb.create\<close> (section 6: generic create,
  returning the full record); the store fills in the id and the creation time of the
  record it is given and appends it.
\<close>

definition billingCreate :: "Env \<Rightarrow> BillingQueueItem \<Rightarrow> Db \<Rightarrow> Db" where
  "billingCreate env item db =
     db\<lparr>billingQueue := billingQueue db
           @ [item\<lparr>bq_id := genId env (idSeq db), bq_createdAt := now env\<rparr>],
        idSeq := Suc (idSeq db)\<rparr>"

text \<open>
  Modelled from the spec: \<^verbatim>\<open>billingQueueDb.markPaid(id, method, receiptNumber)\<close>
  (section 4.4: mark the billing item \<open>status = paid\<close>, storing \<open>paymentMethod\<close> and
  \<open>receiptNumber\<close>).
\<close>

definition billingMarkPaid :: "ident \<Rightarrow> string \<Rightarrow> string \<Rightarrow> Db \<Rightarrow> Db" where
  "billingMarkPaid i method rn db =
     billingUpdate i
       (\<lambda>b. b\<lparr>bq_status := Paid, paymentMethod := Some method, receiptNumber := Some rn\<rparr>) db"

text \<open>
  Modelled from the spec: \<^verbatim>\<open>billingQueueDb.markCompleted(id)\<close> (section 4.4: paid to
  completed).
\<close>

definition billingMarkCompleted :: "ident \<Rightarrow> Db \<Rightarrow> Db" where
  "billingMarkCompleted i db = billingUpdate i (\<lambda>b. b\<lparr>bq_status := Completed\<rparr>) db"

text \<open>
  Modelled from the spec: \<^verbatim>\<open>billingQueueDb.generateReceiptNumber()\<close> (section 6: a
  unique, sequential identifier on demand; its format is a collaborator's concern).
\<close>

definition generateReceiptNumber :: "Env \<Rightarrow> Db \<Rightarrow> string \<times> Db" where
  "generateReceiptNumber env db =
     (fmtReceipt env (receiptSeq db), db\<lparr>receiptSeq := Suc (receiptSeq db)\<rparr>)"

text \<open>
  Modelled from the spec: \<^verbatim>\<open>billingReceiptDb.create\<close> and \<^verbatim>\<open>feeHistoryDb.create\<close>
  (section 6: generic create); the store fills in the id (and the receipt's creation
  time) and appends the record.
\<close>

definition receiptCreate :: "Env \<Rightarrow> BillingReceipt \<Rightarrow> Db \<Rightarrow> Db" where
  "receiptCreate env r db =
     db\<lparr>billingReceipts := billingReceipts db
           @ [r\<lparr>rc_id := genId env (idSeq db), rc_createdAt := now env\<rparr>],
        idSeq := Suc (idSeq db)\<rparr>"

definition feeHistoryCreate :: "Env \<Rightarrow> FeeHistory \<Rightarrow> Db \<Rightarrow> Db" where
  "feeHistoryCreate env h db =
     db\<lparr>feeHistory := feeHistory db @ [h\<lparr>fh_id := genId env (idSeq db)\<rparr>],
        idSeq := Suc (idSeq db)\<rparr>"

section \<open>Billing page: loading the queue\<close>

text \<open>
  The fee fields an appointment gives to a stored billing item (\<^verbatim>\<open>loadQueue\<close>): nothing
  when its \<open>feeAmount\<close> is null, else the amount, \<^verbatim>\<open>apt.feeType || correctFeeType\<close>
  and \<^verbatim>\<open>apt.feeStatus || correctPaymentStatus\<close>.
\<close>

definition feeFromAppointment ::
  "BillingQueueItem \<Rightarrow> Appointment \<Rightarrow> (money \<times> string \<times> string) option" where
  "feeFromAppointment item apt =
     (case apt_feeAmount apt of
        None \<Rightarrow> None
      | Some f \<Rightarrow> Some (f, orElse (apt_feeType apt) (feeType item),
                          orElse (apt_feeStatus apt) (paymentStatus item)))"

text \<open>
  The first appointment of the patient with \<^verbatim>\<open>aptDate >= today && aptDate <= todayEnd\<close>.
\<close>

definition todayAppointment :: "Env \<Rightarrow> Db \<Rightarrow> ident \<Rightarrow> Appointment option" where
  "todayAppointment env db pid =
     find (\<lambda>apt. startOfDay (tzOffset env) (now env) \<le> appointmentDate apt
                \<and> appointmentDate apt \<le> endOfDay (tzOffset env) (now env))
       (appointmentGetByPatient db pid)"

text \<open>
  \<^verbatim>\<open>correctFee\<close>, \<^verbatim>\<open>correctFeeType\<close> and \<^verbatim>\<open>correctPaymentStatus\<close> of \<^verbatim>\<open>loadQueue\<close>:
  the linked appointment when it carries a fee (\<^verbatim>\<open>foundAppointment\<close>), else today's
  appointment of the patient when it carries a fee, else the stored values.
\<close>

definition resolveLoadedFee :: "Env \<Rightarrow> Db \<Rightarrow> BillingQueueItem \<Rightarrow> money \<times> string \<times> string" where
  "resolveLoadedFee env db item =
     (let stored = (feeAmount item, feeType item, paymentStatus item);
          fromLinked =
            (if truthy (bq_appointmentId item) then
               (case appointmentGetById db (orElse (bq_appointmentId item) []) of
                  None \<Rightarrow> None
                | Some apt \<Rightarrow> feeFromAppointment item apt)
             else None)
      in case fromLinked of
           Some r \<Rightarrow> r
         | None \<Rightarrow>
             (case todayAppointment env db (bq_patientId item) of
                None \<Rightarrow> stored
              | Some apt \<Rightarrow>
                  (case feeFromAppointment item apt of None \<Rightarrow> stored | Some r \<Rightarrow> r)))"

text \<open>
  The body of \<^verbatim>\<open>filteredByDate.forEach\<close>: one item of the snapshot. The subtraction
  \<^verbatim>\<open>correctFee - (item.discountAmount || 0)\<close> rounds as a double does; a difference
  past the largest double, which JavaScript would store as \<^verbatim>\<open>Infinity\<close>, is outside the
  numbers a field of the model holds.
\<close>

definition resyncItem :: "Env \<Rightarrow> BillingQueueItem \<Rightarrow> Db \<Rightarrow> Db" where
  "resyncItem env item db =
     (if bq_status item = Pending then
        (case resolveLoadedFee env db item of
           (correctFee, correctFeeType, correctPaymentStatus) \<Rightarrow>
             if correctFee \<noteq> feeAmount item \<or> correctFeeType \<noteq> feeType item
                \<or> correctPaymentStatus \<noteq> paymentStatus item
             then billingUpdate (bq_id item)
                    (\<lambda>b. b\<lparr>feeAmount := correctFee, feeType := correctFeeType,
                            paymentStatus := correctPaymentStatus,
                            netAmount := roundNearest (correctFee - orZero (discountAmount item))\<rparr>) db
             else db)
      else db)"

definition onSelectedDay :: "Env \<Rightarrow> timestamp \<Rightarrow> BillingQueueItem \<Rightarrow> bool" where
  "onSelectedDay env selectedDate item =
     (toDateString (tzOffset env) (bq_createdAt item) = toDateString (tzOffset env) selectedDate)"

definition resyncQueue :: "Env \<Rightarrow> timestamp \<Rightarrow> Db \<Rightarrow> Db" where
  "resyncQueue env selectedDate db =
     foldl (\<lambda>d item. resyncItem env item d) db
       (filter (onSelectedDay env selectedDate) (billingQueue db))"

text \<open>
  \<^verbatim>\<open>loadQueue\<close> of the billing page: the store after the fee resync, the pending view
  (pending and paid, oldest first) and the completed view (newest first). Enriching the
  views with patient, visit and prescriptions only adds display fields and is left out.
\<close>

definition billingLoadQueue ::
  "Env \<Rightarrow> timestamp \<Rightarrow> Db \<Rightarrow> Db \<times> BillingQueueItem list \<times> BillingQueueItem list" where
  "billingLoadQueue env selectedDate db =
     (let db' = resyncQueue env selectedDate db;
          updatedItems = filter (onSelectedDay env selectedDate) (billingQueue db');
          pending = filter (\<lambda>item. bq_status item = Pending \<or> bq_status item = Paid) updatedItems;
          completed = filter (\<lambda>item. bq_status item = Completed) updatedItems
      in (db',
          jsSort (\<lambda>a b. bq_createdAt a - bq_createdAt b) pending,
          jsSort (\<lambda>a b. bq_createdAt b - bq_createdAt a) completed))"

section \<open>Billing admission\<close>

text \<open>
  \<^verbatim>\<open>if (apt.feeAmount !== undefined && apt.feeAmount !== null) feeAmount = apt.feeAmount;
  if (apt.feeType) feeType = apt.feeType\<close>, on the defaults \<open>d\<close>.
\<close>

definition overrideFee :: "Appointment \<Rightarrow> money \<times> string \<Rightarrow> money \<times> string" where
  "overrideFee apt d =
     ((case apt_feeAmount apt of None \<Rightarrow> fst d | Some f \<Rightarrow> f), orElse (apt_feeType apt) (snd d))"

text \<open>The fee of a new billing item in \<^verbatim>\<open>checkPharmacyQueue\<close>.\<close>

definition sweepFee :: "Env \<Rightarrow> Db \<Rightarrow> PharmacyQueueItem \<Rightarrow> money \<times> string" where
  "sweepFee env db pharmacyItem =
     (if truthy (pq_appointmentId pharmacyItem) then
        (case appointmentGetById db (orElse (pq_appointmentId pharmacyItem) []) of
           None \<Rightarrow> (300, ''Consultation'')
         | Some apt \<Rightarrow> overrideFee apt (300, ''Consultation''))
      else
        (case todayAppointment env db (pq_patientId pharmacyItem) of
           Some apt \<Rightarrow> overrideFee apt (300, ''Consultation'')
         | None \<Rightarrow>
             (case visitGetById db (pq_visitId pharmacyItem) of
                None \<Rightarrow> (300, ''Consultation'')
              | Some visit \<Rightarrow>
                  if visitNumber visit = 1 then (500, ''New Patient'') else (300, ''Follow Up''))))"

text \<open>The object both pages pass to \<^verbatim>\<open>billingQueueDb.create\<close>.\<close>

definition newBillingItem ::
  "PharmacyQueueItem \<Rightarrow> money \<Rightarrow> string \<Rightarrow> BillingQueueItem" where
  "newBillingItem pharmacyItem fee ty =
     \<lparr>bq_id = [], bq_visitId = pq_visitId pharmacyItem, bq_patientId = pq_patientId pharmacyItem,
      bq_appointmentId = pq_appointmentId pharmacyItem,
      bq_prescriptionIds = pq_prescriptionIds pharmacyItem, bq_status = Pending,
      feeAmount = fee, feeType = ty, discountPercent = None, discountAmount = None,
      netAmount = fee, paymentMethod = None, paymentStatus = ''pending'',
      receiptNumber = None, bq_createdAt = 0\<rparr>"

text \<open>The body of \<^verbatim>\<open>preparedPharmacyItems.forEach\<close>.\<close>

definition admitPrepared :: "Env \<Rightarrow> PharmacyQueueItem \<Rightarrow> Db \<Rightarrow> Db" where
  "admitPrepared env pharmacyItem db =
     (case find (\<lambda>b. bq_visitId b = pq_visitId pharmacyItem) (billingQueue db) of
        Some existingBilling \<Rightarrow> db
      | None \<Rightarrow>
          (case sweepFee env db pharmacyItem of
             (fee, ty) \<Rightarrow>
               pharmacyUpdate (pq_id pharmacyItem) (\<lambda>p. p\<lparr>pq_status := ''billed''\<rparr>)
                 (billingCreate env (newBillingItem pharmacyItem fee ty) db)))"

definition sweepAdmit :: "Env \<Rightarrow> Db \<Rightarrow> Db" where
  "sweepAdmit env db =
     foldl (\<lambda>d pharmacyItem. admitPrepared env pharmacyItem d) db
       (filter (\<lambda>item. pq_status item = ''prepared'') (pharmacyQueue db))"

definition checkPharmacyQueue ::
  "Env \<Rightarrow> timestamp \<Rightarrow> Db \<Rightarrow> Db \<times> BillingQueueItem list \<times> BillingQueueItem list" where
  "checkPharmacyQueue env selectedDate db = billingLoadQueue env selectedDate (sweepAdmit env db)"

section \<open>Billing status machine\<close>

text \<open>
  Each handler takes the item as the list shows it (the snapshot \<open>item\<close>) and ends with
  \<^verbatim>\<open>loadQueue()\<close>, whose result it returns.
\<close>

definition handleGenerateReceipt ::
  "Env \<Rightarrow> timestamp \<Rightarrow> BillingQueueItem \<Rightarrow> Db
     \<Rightarrow> Db \<times> BillingQueueItem list \<times> BillingQueueItem list" where
  "handleGenerateReceipt env selectedDate item db =
     (case generateReceiptNumber env db of
        (rn, db1) \<Rightarrow>
          (let receipt =
                 \<lparr>rc_id = [], rc_receiptNumber = rn, rc_billingQueueId = bq_id item,
                  rc_patientId = bq_patientId item, rc_visitId = bq_visitId item,
                  rc_items = [\<lparr>description = feeType item, ri_quantity = 1,
                                unitPrice = feeAmount item, total = feeAmount item\<rparr>],
                  rc_subtotal = feeAmount item, rc_discountPercent = discountPercent item,
                  rc_discountAmount = discountAmount item, rc_netAmount = netAmount item,
                  rc_paymentMethod = orElse (paymentMethod item) ''cash'',
                  rc_paymentStatus = ''paid'', rc_createdAt = 0\<rparr>;
               db2 = receiptCreate env receipt db1;
               db3 = billingMarkPaid (bq_id item) (orElse (paymentMethod item) ''cash'') rn db2
           in billingLoadQueue env selectedDate db3))"

definition handleComplete ::
  "Env \<Rightarrow> timestamp \<Rightarrow> BillingQueueItem \<Rightarrow> Db
     \<Rightarrow> Db \<times> BillingQueueItem list \<times> BillingQueueItem list" where
  "handleComplete env selectedDate item db =
     (let db1 = billingMarkCompleted (bq_id item) db;
          db2 = (if truthy (bq_appointmentId item)
                 then appointmentUpdate (orElse (bq_appointmentId item) [])
                        (\<lambda>a. a\<lparr>apt_status := ''completed''\<rparr>) db1
                 else db1);
          db3 = feeHistoryCreate env
                  \<lparr>fh_id = [], fh_patientId = bq_patientId item, fh_visitId = bq_visitId item,
                   fh_receiptId = orElse (receiptNumber item) [],
                   fh_feeType = (if feeType item = ''New Patient'' then ''first-visit''
                                 else ''follow-up''),
                   fh_amount = netAmount item,
                   fh_paymentMethod = orElse (paymentMethod item) ''cash'',
                   fh_paymentStatus = ''paid'', fh_paidDate = now env\<rparr> db2
      in billingLoadQueue env selectedDate db3)"

definition handleReopen ::
  "Env \<Rightarrow> timestamp \<Rightarrow> BillingQueueItem \<Rightarrow> Db
     \<Rightarrow> Db \<times> BillingQueueItem list \<times> BillingQueueItem list" where
  "handleReopen env selectedDate item db =
     billingLoadQueue env selectedDate (billingUpdate (bq_id item) (\<lambda>b. b\<lparr>bq_status := Paid\<rparr>) db)"

section \<open>Pharmacy page\<close>

text \<open>The comparator of \<^verbatim>\<open>sortItems\<close>: priority patients first, then oldest first.\<close>

definition comparePharmacy :: "PharmacyQueueItem \<Rightarrow> PharmacyQueueItem \<Rightarrow> int" where
  "comparePharmacy a b =
     (if priority a \<and> \<not> priority b then - 1
      else if \<not> priority a \<and> priority b then 1
      else pq_createdAt a - pq_createdAt b)"

definition sortItems :: "PharmacyQueueItem list \<Rightarrow> PharmacyQueueItem list" where
  "sortItems items = jsSort comparePharmacy items"

definition activeItems :: "Db \<Rightarrow> PharmacyQueueItem list" where
  "activeItems db =
     filter (\<lambda>item. pq_status item = ''pending'' \<or> pq_status item = ''preparing'') (pharmacyQueue db)"

definition preparedItemsList :: "Db \<Rightarrow> PharmacyQueueItem list" where
  "preparedItemsList db = filter (\<lambda>item. pq_status item = ''prepared'') (pharmacyQueue db)"

text \<open>An enriched item (\<^verbatim>\<open>PharmacyQueueItemWithDetails\<close>; the patient is display only).\<close>

record PharmacyView =
  pv_item :: PharmacyQueueItem
  pv_visit :: "DoctorVisit option"
  pv_prescriptions :: "DoctorPrescription list"
  hasUpdates :: bool

text \<open>
  The state of the pharmacy page: the ref \<^verbatim>\<open>previousPrescriptionIds\<close>, and the React
  states \<^verbatim>\<open>lastUpdateTime\<close>, \<^verbatim>\<open>notification\<close>, \<^verbatim>\<open>queueItems\<close> and \<^verbatim>\<open>preparedItems\<close>.
\<close>

record PharmacyPage =
  previousPrescriptionIds :: "ident \<rightharpoonup> string"
  lastUpdateTime :: int
  notification :: "string option"
  queueItems :: "PharmacyView list"
  preparedItems :: "PharmacyView list"

text \<open>
  The page as \<^verbatim>\<open>useState\<close> and \<^verbatim>\<open>useRef\<close> initialise it. No statement of the page calls
  \<^verbatim>\<open>setLastUpdateTime\<close>, so \<open>lastUpdateTime\<close> keeps this value.
\<close>

definition initialPage :: PharmacyPage where
  "initialPage = \<lparr>previousPrescriptionIds = Map.empty, lastUpdateTime = 0,
     notification = None, queueItems = [], preparedItems = []\<rparr>"

text \<open>Decimal digits of a number, for the template string of the notification.\<close>

fun showNat :: "nat \<Rightarrow> string" where
  "showNat n =
     (if n < 10 then [''0123456789'' ! n]
      else showNat (n div 10) @ [''0123456789'' ! (n mod 10)])"

declare showNat.simps [simp del]

text \<open>One step of the \<^verbatim>\<open>items.map\<close> in \<^verbatim>\<open>enrichItems\<close>, with the ref passed through.\<close>

definition enrichItem ::
  "Db \<Rightarrow> PharmacyQueueItem \<Rightarrow> (ident \<rightharpoonup> string) \<Rightarrow> PharmacyView \<times> (ident \<rightharpoonup> string)" where
  "enrichItem db item prev =
     (let rxs = prescriptionGetByVisit db (pq_visitId item);
          currentPrescriptionIds = joinComma (map rx_id rxs);
          previousIds = prev (pq_id item);
          upd = (previousIds \<noteq> None \<and> previousIds \<noteq> Some currentPrescriptionIds)
      in (\<lparr>pv_item = item, pv_visit = visitGetById db (pq_visitId item),
           pv_prescriptions = rxs, hasUpdates = upd\<rparr>,
          prev(pq_id item \<mapsto> currentPrescriptionIds)))"

fun enrichItems ::
  "Db \<Rightarrow> PharmacyQueueItem list \<Rightarrow> (ident \<rightharpoonup> string)
     \<Rightarrow> PharmacyView list \<times> (ident \<rightharpoonup> string)" where
  "enrichItems db [] prev = ([], prev)"
| "enrichItems db (item # items) prev =
     (case enrichItem db item prev of
        (v, prev1) \<Rightarrow>
          (case enrichItems db items prev1 of (vs, prev2) \<Rightarrow> (v # vs, prev2)))"

text \<open>
  \<^verbatim>\<open>loadQueue\<close> of the pharmacy page. The timer that clears the notification after five
  seconds is not modelled.
\<close>

definition pharmacyLoadQueue :: "Db \<Rightarrow> PharmacyPage \<Rightarrow> PharmacyPage" where
  "pharmacyLoadQueue db page =
     (case enrichItems db (sortItems (activeItems db)) (previousPrescriptionIds page) of
        (enrichedActiveItems, prev1) \<Rightarrow>
          (case enrichItems db (sortItems (preparedItemsList db)) prev1 of
             (enrichedPreparedItems, prev2) \<Rightarrow>
               (let itemsWithUpdates = filter hasUpdates enrichedActiveItems
                in page\<lparr>previousPrescriptionIds := prev2,
                        notification :=
                          (if length itemsWithUpdates > 0 \<and> lastUpdateTime page > 0
                           then Some (showNat (length itemsWithUpdates)
                                      @ '' prescription(s) updated by doctor'')
                           else notification page),
                        queueItems := enrichedActiveItems,
                        preparedItems := enrichedPreparedItems\<rparr>)))"

text \<open>The fee of a new billing item in \<^verbatim>\<open>handleMarkPrepared\<close>.\<close>

definition inlineFee :: "Appointment option \<Rightarrow> DoctorVisit option \<Rightarrow> money \<times> string" where
  "inlineFee relevantAppointment visit =
     (case relevantAppointment of
        Some apt \<Rightarrow> overrideFee apt (300, ''Follow Up'')
      | None \<Rightarrow>
          (case visit of
             None \<Rightarrow> (300, ''Follow Up'')
           | Some v \<Rightarrow> if visitNumber v = 1 then (500, ''New Patient'') else (300, ''Follow Up'')))"

text \<open>
  Today's appointment of the patient in status completed or in-progress, days compared
  as ISO date strings.
\<close>

definition relevantAppointment :: "Env \<Rightarrow> Db \<Rightarrow> ident \<Rightarrow> Appointment option" where
  "relevantAppointment env db pid =
     find (\<lambda>apt. isoDate (appointmentDate apt) = isoDate (now env)
                \<and> (apt_status apt = ''completed'' \<or> apt_status apt = ''in-progress''))
       (appointmentGetByPatient db pid)"

text \<open>
  \<^verbatim>\<open>handleMarkPrepared\<close>, as far as the store goes; its closing \<^verbatim>\<open>loadQueue()\<close> is
  \<open>pharmacyLoadQueue\<close> and changes the page only.
\<close>

definition handleMarkPrepared :: "Env \<Rightarrow> ident \<Rightarrow> Db \<Rightarrow> Db" where
  "handleMarkPrepared env itemId db =
     (let found = pharmacyGetById db itemId;
          db1 = pharmacyMarkPrepared itemId ''pharmacy'' db
      in case found of
           None \<Rightarrow> db1
         | Some pharmacyItem \<Rightarrow>
             (let rel = relevantAppointment env db1 (pq_patientId pharmacyItem);
                  db2 = (case rel of
                           None \<Rightarrow> db1
                         | Some apt \<Rightarrow>
                             appointmentUpdate (apt_id apt)
                               (\<lambda>a. a\<lparr>apt_status := ''medicines-prepared''\<rparr>) db1)
              in case find (\<lambda>b. bq_visitId b = pq_visitId pharmacyItem) (billingQueue db2) of
                   Some existingBilling \<Rightarrow> db2
                 | None \<Rightarrow>
                     (case inlineFee rel (visitGetById db2 (pq_visitId pharmacyItem)) of
                        (fee, ty) \<Rightarrow>
                          billingCreate env (newBillingItem pharmacyItem fee ty) db2)))"

section \<open>Auxiliary definitions for the statements\<close>

text \<open>
  What \<^verbatim>\<open>loadQueue\<close> writes into the stored item \<open>b\<close> when it resyncs the snapshot
  \<open>item\<close>: the partial fields of its \<^verbatim>\<open>billingQueueDb.update\<close>, or nothing.
\<close>

definition resyncFields ::
  "Env \<Rightarrow> Db \<Rightarrow> BillingQueueItem \<Rightarrow> BillingQueueItem \<Rightarrow> BillingQueueItem" where
  "resyncFields env db item b =
     (if bq_status item = Pending then
        (case resolveLoadedFee env db item of
           (correctFee, correctFeeType, correctPaymentStatus) \<Rightarrow>
             if correctFee \<noteq> feeAmount item \<or> correctFeeType \<noteq> feeType item
                \<or> correctPaymentStatus \<noteq> paymentStatus item
             then b\<lparr>feeAmount := correctFee, feeType := correctFeeType,
                     paymentStatus := correctPaymentStatus,
                     netAmount := roundNearest (correctFee - orZero (discountAmount item))\<rparr>
             else b)
      else b)"

text \<open>
  Every partial sum of \<open>s\<close> and the numbers of the list, taken from the left, is a
  double: the additions of \<^verbatim>\<open>reduce\<close> do not round.
\<close>

primrec sumsAreDoubles :: "real \<Rightarrow> real list \<Rightarrow> bool" where
  "sumsAreDoubles s [] = True"
| "sumsAreDoubles s (a # as) = (isDouble (s + a) \<and> sumsAreDoubles (s + a) as)"



section \<open>A sample clinic day\<close>

text \<open>
  Concrete data for the scenarios below. All times but one fall on day 0 (UTC); patient
  p1 has an appointment with a fee of 700, patient p2 one without a fee; two pharmacy
  items are prepared, and the visit of the first is already in the billing queue.
\<close>

definition exEnv :: Env where
  "exEnv = \<lparr>now = 1000, tzOffset = 0, genId = (\<lambda>n. ''id'' @ showNat n),
     fmtReceipt = (\<lambda>n. ''R'' @ showNat n)\<rparr>"

definition aptFee :: Appointment where
  "aptFee = \<lparr>apt_id = ''a1'', apt_patientId = ''p1'', appointmentDate = 500,
     apt_status = ''completed'', apt_feeAmount = Some 700, apt_feeType = Some ''New Patient'',
     apt_feeStatus = Some ''paid''\<rparr>"

definition aptNoFee :: Appointment where
  "aptNoFee = \<lparr>apt_id = ''a2'', apt_patientId = ''p2'', appointmentDate = 600,
     apt_status = ''completed'', apt_feeAmount = None, apt_feeType = None,
     apt_feeStatus = None\<rparr>"

definition visit1 :: DoctorVisit where
  "visit1 = \<lparr>visit_id = ''v1'', visit_patientId = ''p1'', visitNumber = 2\<rparr>"

definition visit2 :: DoctorVisit where
  "visit2 = \<lparr>visit_id = ''v2'', visit_patientId = ''p2'', visitNumber = 1\<rparr>"

definition rxA :: DoctorPrescription where
  "rxA = \<lparr>rx_id = ''rx1'', rx_visitId = ''v1'', rx_medicine = ''Arnica'', rowOrder = 1\<rparr>"

definition rxB :: DoctorPrescription where
  "rxB = \<lparr>rx_id = ''rx2'', rx_visitId = ''v1'', rx_medicine = ''Bryonia'', rowOrder = 2\<rparr>"

definition ph1 :: PharmacyQueueItem where
  "ph1 = \<lparr>pq_id = ''q1'', pq_visitId = ''v1'', pq_patientId = ''p1'',
     pq_appointmentId = Some ''a1'', pq_prescriptionIds = [''rx1''], priority = False,
     pq_status = ''prepared'', stopReason = None, preparedBy = None, pq_createdAt = 50\<rparr>"

definition ph2 :: PharmacyQueueItem where
  "ph2 = \<lparr>pq_id = ''q2'', pq_visitId = ''v2'', pq_patientId = ''p2'',
     pq_appointmentId = Some ''a2'', pq_prescriptionIds = [], priority = True,
     pq_status = ''prepared'', stopReason = None, preparedBy = None, pq_createdAt = 60\<rparr>"

definition bill1 :: BillingQueueItem where
  "bill1 = \<lparr>bq_id = ''b1'', bq_visitId = ''v1'', bq_patientId = ''p1'',
     bq_appointmentId = Some ''a1'', bq_prescriptionIds = [''rx1''], bq_status = Pending,
     feeAmount = 300, feeType = ''Consultation'', discountPercent = Some 10,
     discountAmount = Some 30, netAmount = 270, paymentMethod = None,
     paymentStatus = ''pending'', receiptNumber = None, bq_createdAt = 100\<rparr>"

text \<open>A pending item of the same patient, created on the next day.\<close>

definition bill0 :: BillingQueueItem where
  "bill0 = \<lparr>bq_id = ''b0'', bq_visitId = ''v0'', bq_patientId = ''p1'',
     bq_appointmentId = Some ''a1'', bq_prescriptionIds = [], bq_status = Pending,
     feeAmount = 300, feeType = ''Consultation'', discountPercent = None,
     discountAmount = None, netAmount = 300, paymentMethod = None,
     paymentStatus = ''pending'', receiptNumber = None, bq_createdAt = 86400005\<rparr>"

definition exDb :: Db where
  "exDb = \<lparr>appointments = [aptFee, aptNoFee], visits = [visit1, visit2],
     prescriptions = [rxA, rxB], pharmacyQueue = [ph1, ph2], billingQueue = [bill1, bill0],
     billingReceipts = [], feeHistory = [], idSeq = 0, receiptSeq = 0\<rparr>"

text \<open>
  For the change detection of the pharmacy page: one active item for visit v1, and the
  store after the doctor has added a third prescription to that visit.
\<close>

definition phActive :: PharmacyQueueItem where
  "phActive = \<lparr>pq_id = ''q3'', pq_visitId = ''v1'', pq_patientId = ''p1'',
     pq_appointmentId = Some ''a1'', pq_prescriptionIds = [''rx1'', ''rx2''], priority = False,
     pq_status = ''preparing'', stopReason = None, preparedBy = None, pq_createdAt = 70\<rparr>"

definition rxC :: DoctorPrescription where
  "rxC = \<lparr>rx_id = ''rx3'', rx_visitId = ''v1'', rx_medicine = ''Calendula'', rowOrder = 3\<rparr>"

definition dbBefore :: Db where
  "dbBefore = exDb\<lparr>pharmacyQueue := [phActive]\<rparr>"

definition dbAfter :: Db where
  "dbAfter = dbBefore\<lparr>prescriptions := [rxA, rxB, rxC]\<rparr>"

text \<open>
  A second patient file for the fee resolution: p3 has an appointment of the day before
  (fee 900), then one of today that is only scheduled (fee 800), then one of today that
  is in progress (fee 650, no fee type); p4 has no appointment. q5 is the pharmacy item
  of p3's visit, without appointment id, q6 that of p4's first visit. In the billing
  queue b3 (p3, no link) and b4 (p3, linked to the appointment without fee) are pending,
  b5 (p1, linked to the appointment with fee 700) is paid, b6 (p4) is pending.
\<close>

definition aptOld :: Appointment where
  "aptOld = \<lparr>apt_id = ''a3'', apt_patientId = ''p3'', appointmentDate = - 5,
     apt_status = ''completed'', apt_feeAmount = Some 900, apt_feeType = Some ''Old Case'',
     apt_feeStatus = Some ''paid''\<rparr>"

definition aptSched :: Appointment where
  "aptSched = \<lparr>apt_id = ''a4'', apt_patientId = ''p3'', appointmentDate = 300,
     apt_status = ''scheduled'', apt_feeAmount = Some 800, apt_feeType = Some ''Special'',
     apt_feeStatus = Some ''partial''\<rparr>"

definition aptProg :: Appointment where
  "aptProg = \<lparr>apt_id = ''a5'', apt_patientId = ''p3'', appointmentDate = 400,
     apt_status = ''in-progress'', apt_feeAmount = Some 650, apt_feeType = None,
     apt_feeStatus = None\<rparr>"

definition visit3 :: DoctorVisit where
  "visit3 = \<lparr>visit_id = ''v3'', visit_patientId = ''p3'', visitNumber = 4\<rparr>"

definition visit4 :: DoctorVisit where
  "visit4 = \<lparr>visit_id = ''v4'', visit_patientId = ''p4'', visitNumber = 1\<rparr>"

definition ph5 :: PharmacyQueueItem where
  "ph5 = \<lparr>pq_id = ''q5'', pq_visitId = ''v3'', pq_patientId = ''p3'',
     pq_appointmentId = None, pq_prescriptionIds = [], priority = False,
     pq_status = ''preparing'', stopReason = None, preparedBy = None, pq_createdAt = 80\<rparr>"

definition ph6 :: PharmacyQueueItem where
  "ph6 = \<lparr>pq_id = ''q6'', pq_visitId = ''v4'', pq_patientId = ''p4'',
     pq_appointmentId = None, pq_prescriptionIds = [], priority = False,
     pq_status = ''preparing'', stopReason = None, preparedBy = None, pq_createdAt = 90\<rparr>"

definition bill3 :: BillingQueueItem where
  "bill3 = \<lparr>bq_id = ''b3'', bq_visitId = ''v7'', bq_patientId = ''p3'',
     bq_appointmentId = None, bq_prescriptionIds = [], bq_status = Pending,
     feeAmount = 300, feeType = ''Consultation'', discountPercent = Some 20,
     discountAmount = Some 60, netAmount = 240, paymentMethod = None,
     paymentStatus = ''pending'', receiptNumber = None, bq_createdAt = 150\<rparr>"

definition bill4 :: BillingQueueItem where
  "bill4 = \<lparr>bq_id = ''b4'', bq_visitId = ''v8'', bq_patientId = ''p3'',
     bq_appointmentId = Some ''a2'', bq_prescriptionIds = [], bq_status = Pending,
     feeAmount = 300, feeType = ''Consultation'', discountPercent = None,
     discountAmount = None, netAmount = 300, paymentMethod = None,
     paymentStatus = ''pending'', receiptNumber = None, bq_createdAt = 160\<rparr>"

definition bill5 :: BillingQueueItem where
  "bill5 = \<lparr>bq_id = ''b5'', bq_visitId = ''v9'', bq_patientId = ''p1'',
     bq_appointmentId = Some ''a1'', bq_prescriptionIds = [], bq_status = Paid,
     feeAmount = 300, feeType = ''Consultation'', discountPercent = None,
     discountAmount = None, netAmount = 300, paymentMethod = Some ''cash'',
     paymentStatus = ''pending'', receiptNumber = Some ''R7'', bq_createdAt = 170\<rparr>"

definition bill6 :: BillingQueueItem where
  "bill6 = \<lparr>bq_id = ''b6'', bq_visitId = ''v10'', bq_patientId = ''p4'',
     bq_appointmentId = None, bq_prescriptionIds = [], bq_status = Pending,
     feeAmount = 300, feeType = ''Follow Up'', discountPercent = None,
     discountAmount = None, netAmount = 300, paymentMethod = None,
     paymentStatus = ''pending'', receiptNumber = None, bq_createdAt = 180\<rparr>"

definition exDb2 :: Db where
  "exDb2 = \<lparr>appointments = [aptFee, aptNoFee, aptOld, aptSched, aptProg],
     visits = [visit1, visit2, visit3, visit4], prescriptions = [],
     pharmacyQueue = [ph5, ph6],
     billingQueue = [bill1, bill0, bill3, bill4, bill5, bill6],
     billingReceipts = [], feeHistory = [], idSeq = 0, receiptSeq = 0\<rparr>"

text \<open>The doubles that the literals \<^verbatim>\<open>0.1\<close> and \<^verbatim>\<open>0.2\<close> denote.\<close>

definition double01 :: real where
  "double01 = 3602879701896397 / 36028797018963968"

definition double02 :: real where
  "double02 = 3602879701896397 / 18014398509481984"

section \<open>The loader of the billing page\<close>

text \<open>
  The resync reads the appointments only and writes the billing queue only; on a queue
  with distinct ids its loop amounts to one pass over the items of the selected day.
\<close>

lemma resolveLoadedFee_cong:
  "appointments d = appointments db \<Longrightarrow> resolveLoadedFee env d item = resolveLoadedFee env db item"
  unfolding resolveLoadedFee_def appointmentGetById_def todayAppointment_def
      appointmentGetByPatient_def by simp

lemma resyncFields_cong:
  "appointments d = appointments db \<Longrightarrow> resyncFields env d item = resyncFields env db item"
  by (simp add: resyncFields_def fun_eq_iff resolveLoadedFee_cong [of d db])

lemma resyncFields_id [simp]: "bq_id (resyncFields env db item b) = bq_id b"
  by (simp add: resyncFields_def split: prod.splits)

lemma resyncItem_queue:
  "billingQueue (resyncItem env item d)
     = map (\<lambda>b. if bq_id b = bq_id item then resyncFields env d item b else b) (billingQueue d)"
proof -
  obtain f t p where r: "resolveLoadedFee env d item = (f, t, p)"
    by (cases "resolveLoadedFee env d item")
  show ?thesis
  proof (cases "bq_status item = Pending
      \<and> (f \<noteq> feeAmount item \<or> t \<noteq> feeType item \<or> p \<noteq> paymentStatus item)")
    case True
    then show ?thesis
      by (auto simp: resyncItem_def resyncFields_def billingUpdate_def r)
  next
    case False
    then have "resyncItem env item d = d" and "\<And>b. resyncFields env d item b = b"
      by (auto simp: resyncItem_def resyncFields_def r)
    then show ?thesis by (simp add: map_idI)
  qed
qed

lemma resyncItem_frame:
  "appointments (resyncItem env item d) = appointments d
   \<and> visits (resyncItem env item d) = visits d
   \<and> prescriptions (resyncItem env item d) = prescriptions d
   \<and> pharmacyQueue (resyncItem env item d) = pharmacyQueue d
   \<and> billingReceipts (resyncItem env item d) = billingReceipts d
   \<and> feeHistory (resyncItem env item d) = feeHistory d
   \<and> idSeq (resyncItem env item d) = idSeq d
   \<and> receiptSeq (resyncItem env item d) = receiptSeq d"
  by (simp add: resyncItem_def billingUpdate_def split: prod.splits)

lemma resync_fold_frame:
  "appointments (foldl (\<lambda>d item. resyncItem env item d) db xs) = appointments db
   \<and> visits (foldl (\<lambda>d item. resyncItem env item d) db xs) = visits db
   \<and> prescriptions (foldl (\<lambda>d item. resyncItem env item d) db xs) = prescriptions db
   \<and> pharmacyQueue (foldl (\<lambda>d item. resyncItem env item d) db xs) = pharmacyQueue db
   \<and> billingReceipts (foldl (\<lambda>d item. resyncItem env item d) db xs) = billingReceipts db
   \<and> feeHistory (foldl (\<lambda>d item. resyncItem env item d) db xs) = feeHistory db
   \<and> idSeq (foldl (\<lambda>d item. resyncItem env item d) db xs) = idSeq db
   \<and> receiptSeq (foldl (\<lambda>d item. resyncItem env item d) db xs) = receiptSeq db"
  by (induction xs rule: rev_induct) (simp_all add: resyncItem_frame)

lemma resync_fold_queue:
  assumes "distinct (map bq_id (billingQueue db))"
  shows "set xs \<subseteq> set (billingQueue db) \<Longrightarrow> distinct xs \<Longrightarrow>
     billingQueue (foldl (\<lambda>d item. resyncItem env item d) db xs)
       = map (\<lambda>b. if b \<in> set xs then resyncFields env db b b else b) (billingQueue db)"
proof (induction xs rule: rev_induct)
  case Nil
  show ?case by simp
next
  case (snoc x xs)
  let ?d = "foldl (\<lambda>d item. resyncItem env item d) db xs"
  have inj: "inj_on bq_id (set (billingQueue db))"
    using assms by (simp add: distinct_map)
  have x: "x \<in> set (billingQueue db)" "x \<notin> set xs"
    using snoc.prems by auto
  have ih: "billingQueue ?d
      = map (\<lambda>b. if b \<in> set xs then resyncFields env db b b else b) (billingQueue db)"
    using snoc by simp
  have ap: "appointments ?d = appointments db"
    by (simp add: resync_fold_frame)
  have "billingQueue (resyncItem env x ?d)
      = map (\<lambda>b. if bq_id b = bq_id x then resyncFields env db x b else b) (billingQueue ?d)"
    by (simp add: resyncItem_queue resyncFields_cong [OF ap])
  also have "\<dots> = map (\<lambda>b. if b \<in> set (xs @ [x]) then resyncFields env db b b else b)
      (billingQueue db)"
    unfolding ih map_map
  proof (rule map_cong [OF refl])
    fix b assume b: "b \<in> set (billingQueue db)"
    show "((\<lambda>b. if bq_id b = bq_id x then resyncFields env db x b else b) \<circ>
          (\<lambda>b. if b \<in> set xs then resyncFields env db b b else b)) b
        = (if b \<in> set (xs @ [x]) then resyncFields env db b b else b)"
    proof (cases "b = x")
      case True
      then show ?thesis using x by simp
    next
      case False
      then have "bq_id b \<noteq> bq_id x"
        using inj b x(1) by (auto dest: inj_onD)
      then show ?thesis using False by simp
    qed
  qed
  finally show ?case by simp
qed

lemma resyncQueue_queue:
  assumes "distinct (map bq_id (billingQueue db))"
  shows "billingQueue (resyncQueue env sel db)
     = map (\<lambda>b. if onSelectedDay env sel b then resyncFields env db b b else b) (billingQueue db)"
proof -
  have d: "distinct (billingQueue db)"
    using assms by (simp add: distinct_map)
  have "billingQueue (resyncQueue env sel db)
      = map (\<lambda>b. if b \<in> set (filter (onSelectedDay env sel) (billingQueue db))
                  then resyncFields env db b b else b) (billingQueue db)"
    unfolding resyncQueue_def using d by (intro resync_fold_queue [OF assms]) auto
  also have "\<dots> = map (\<lambda>b. if onSelectedDay env sel b then resyncFields env db b b else b)
      (billingQueue db)"
    by (rule map_cong) auto
  finally show ?thesis .
qed

lemma find_map_key:
  "distinct (map k q) \<Longrightarrow> b \<in> set q \<Longrightarrow> (\<And>x. k (F x) = k x)
     \<Longrightarrow> find (\<lambda>x. k x = k b) (map F q) = Some (F b)"
  by (induction q) (auto simp: image_iff)

lemma resyncQueue_ids:
  "map bq_id (billingQueue (foldl (\<lambda>d item. resyncItem env item d) db xs))
     = map bq_id (billingQueue db)"
  by (induction xs rule: rev_induct) (simp_all add: resyncItem_queue o_def if_distrib cong: if_cong)

lemma resyncFields_visitId [simp]: "bq_visitId (resyncFields env db item b) = bq_visitId b"
  by (simp add: resyncFields_def split: prod.splits)

lemma resyncQueue_visitIds:
  "map bq_visitId (billingQueue (foldl (\<lambda>d item. resyncItem env item d) db xs))
     = map bq_visitId (billingQueue db)"
  by (induction xs rule: rev_induct) (simp_all add: resyncItem_queue o_def if_distrib cong: if_cong)

lemma mset_insertBy: "mset (insertBy cmp x xs) = add_mset x (mset xs)"
  by (induction xs) simp_all

lemma mset_jsSort: "mset (jsSort cmp xs) = mset xs"
  unfolding jsSort_def by (induction xs) (simp_all add: mset_insertBy)

lemma set_jsSort: "set (jsSort cmp xs) = set xs"
  by (metis mset_jsSort set_mset_mset)

lemma billingLoadQueue_frame:
  "fst (billingLoadQueue env sel db) = db\<lparr>billingQueue := billingQueue (resyncQueue env sel db)\<rparr>"
  by (simp add: billingLoadQueue_def Let_def resyncQueue_def resync_fold_frame)


section \<open>Billing admission: helper facts\<close>

lemma find_visit_None:
  "(find (\<lambda>b. bq_visitId b = v) q = None) = (v \<notin> bq_visitId ` set q)"
  by (auto simp: find_None_iff)

lemma admitPrepared_queue:
  "billingQueue (admitPrepared env p d)
     = (if pq_visitId p \<in> bq_visitId ` set (billingQueue d) then billingQueue d
        else billingQueue d
          @ [(newBillingItem p (fst (sweepFee env d p)) (snd (sweepFee env d p)))
               \<lparr>bq_id := genId env (idSeq d), bq_createdAt := now env\<rparr>])"
proof (cases "find (\<lambda>b. bq_visitId b = pq_visitId p) (billingQueue d)")
  case None
  then show ?thesis
    using find_visit_None [of "pq_visitId p" "billingQueue d"]
    by (simp add: admitPrepared_def pharmacyUpdate_def billingCreate_def split: prod.splits)
next
  case (Some x)
  then show ?thesis
    using find_visit_None [of "pq_visitId p" "billingQueue d"]
    by (simp add: admitPrepared_def)
qed

lemma admitPrepared_noop:
  "pq_visitId p \<in> bq_visitId ` set (billingQueue d) \<Longrightarrow> admitPrepared env p d = d"
  using find_visit_None [of "pq_visitId p" "billingQueue d"]
  by (auto simp: admitPrepared_def split: option.splits)

lemma admitPrepared_visitIds:
  "map bq_visitId (billingQueue (admitPrepared env p d))
     = (if pq_visitId p \<in> bq_visitId ` set (billingQueue d) then map bq_visitId (billingQueue d)
        else map bq_visitId (billingQueue d) @ [pq_visitId p])"
  by (simp add: admitPrepared_queue newBillingItem_def)

lemma admitPrepared_visitId_set:
  "bq_visitId ` set (billingQueue (admitPrepared env p d))
     = insert (pq_visitId p) (bq_visitId ` set (billingQueue d))"
  using admitPrepared_visitIds [of env p d, THEN arg_cong, of set]
  by (auto split: if_splits)

lemma admitPrepared_pharmacy:
  "q \<in> set (pharmacyQueue (admitPrepared env p d)) \<Longrightarrow> pq_status q = ''prepared''
     \<Longrightarrow> q \<in> set (pharmacyQueue d)"
  by (auto simp: admitPrepared_def pharmacyUpdate_def billingCreate_def
      split: option.splits prod.splits if_splits)

lemma admit_fold_visitIds:
  "bq_visitId ` set (billingQueue (foldl (\<lambda>d p. admitPrepared env p d) d ps))
     = bq_visitId ` set (billingQueue d) \<union> pq_visitId ` set ps"
  by (induction ps arbitrary: d) (simp_all add: admitPrepared_visitId_set)

lemma admit_fold_distinct:
  "distinct (map bq_visitId (billingQueue d))
     \<Longrightarrow> distinct (map bq_visitId (billingQueue (foldl (\<lambda>d p. admitPrepared env p d) d ps)))"
  by (induction ps arbitrary: d) (simp_all add: admitPrepared_visitIds)

lemma admit_fold_pharmacy:
  "q \<in> set (pharmacyQueue (foldl (\<lambda>d p. admitPrepared env p d) d ps))
     \<Longrightarrow> pq_status q = ''prepared'' \<Longrightarrow> q \<in> set (pharmacyQueue d)"
  by (induction ps arbitrary: d) (auto dest: admitPrepared_pharmacy)

lemma admit_fold_noop:
  "pq_visitId ` set ps \<subseteq> bq_visitId ` set (billingQueue d)
     \<Longrightarrow> foldl (\<lambda>d p. admitPrepared env p d) d ps = d"
  by (induction ps arbitrary: d) (simp_all add: admitPrepared_noop)

lemma sweepAdmit_visitIds:
  "bq_visitId ` set (billingQueue (sweepAdmit env db))
     = bq_visitId ` set (billingQueue db)
       \<union> pq_visitId ` {q \<in> set (pharmacyQueue db). pq_status q = ''prepared''}"
  by (simp add: sweepAdmit_def admit_fold_visitIds)

lemma checkPharmacyQueue_db:
  "fst (checkPharmacyQueue env sel db)
     = (sweepAdmit env db)\<lparr>billingQueue := billingQueue (resyncQueue env sel (sweepAdmit env db))\<rparr>"
  by (simp add: checkPharmacyQueue_def billingLoadQueue_frame)

lemma resyncQueue_visitIds':
  "map bq_visitId (billingQueue (resyncQueue env sel db)) = map bq_visitId (billingQueue db)"
  by (simp add: resyncQueue_def resyncQueue_visitIds)

lemma sweep_twice_admits_nothing:
  "sweepAdmit env' (fst (checkPharmacyQueue env sel db)) = fst (checkPharmacyQueue env sel db)"
proof -
  let ?d1 = "sweepAdmit env db"
  let ?d2 = "fst (checkPharmacyQueue env sel db)"
  have ph: "pharmacyQueue ?d2 = pharmacyQueue ?d1"
    by (simp add: checkPharmacyQueue_db)
  have vi: "map bq_visitId (billingQueue ?d2) = map bq_visitId (billingQueue ?d1)"
    by (simp add: checkPharmacyQueue_db resyncQueue_visitIds')
  have "pq_visitId ` set (filter (\<lambda>item. pq_status item = ''prepared'') (pharmacyQueue ?d2))
      \<subseteq> bq_visitId ` set (billingQueue ?d2)"
  proof
    fix v assume "v \<in> pq_visitId ` set (filter (\<lambda>item. pq_status item = ''prepared'') (pharmacyQueue ?d2))"
    then obtain q where q: "q \<in> set (pharmacyQueue ?d1)" "pq_status q = ''prepared''" "v = pq_visitId q"
      by (auto simp: ph)
    then have "q \<in> set (pharmacyQueue db)"
      unfolding sweepAdmit_def by (auto dest: admit_fold_pharmacy)
    then have "v \<in> bq_visitId ` set (billingQueue ?d1)"
      using q unfolding sweepAdmit_visitIds by auto
    then show "v \<in> bq_visitId ` set (billingQueue ?d2)"
      using vi [THEN arg_cong, of set] by simp
  qed
  then show ?thesis
    unfolding sweepAdmit_def [of env'] by (rule admit_fold_noop)
qed

section \<open>Billing status machine: helper facts\<close>

lemma load_getById:
  assumes "distinct (map bq_id (billingQueue d))" and "c \<in> set (billingQueue d)"
  shows "billingGetById (fst (billingLoadQueue env sel d)) (bq_id c)
     = Some (if onSelectedDay env sel c then resyncFields env d c c else c)"
proof -
  let ?F = "\<lambda>x. if onSelectedDay env sel x then resyncFields env d x x else x"
  have "billingQueue (fst (billingLoadQueue env sel d)) = map ?F (billingQueue d)"
    by (simp add: billingLoadQueue_def Let_def resyncQueue_queue [OF assms(1)])
  then show ?thesis
    unfolding billingGetById_def using find_map_key [OF assms, of ?F] by simp
qed

lemma load_ids:
  "map bq_id (billingQueue (fst (billingLoadQueue env sel d))) = map bq_id (billingQueue d)"
  by (simp add: billingLoadQueue_def Let_def resyncQueue_def resyncQueue_ids)

lemma load_other:
  "feeHistory (fst (billingLoadQueue env sel d)) = feeHistory d
   \<and> billingReceipts (fst (billingLoadQueue env sel d)) = billingReceipts d
   \<and> pharmacyQueue (fst (billingLoadQueue env sel d)) = pharmacyQueue d
   \<and> appointments (fst (billingLoadQueue env sel d)) = appointments d"
  by (simp add: billingLoadQueue_frame)

lemma resyncFields_settled: "bq_status c \<noteq> Pending \<Longrightarrow> resyncFields env d c c = c"
  by (simp add: resyncFields_def)

lemma update_then_load:
  assumes dist: "distinct (map bq_id (billingQueue d))"
      and mem: "b \<in> set (billingQueue d)"
      and ids: "\<And>x. bq_id (F x) = bq_id x"
      and st: "bq_status (F b) \<noteq> Pending"
      and q: "billingQueue d' = map (\<lambda>x. if bq_id x = bq_id b then F x else x) (billingQueue d)"
  shows "billingGetById (fst (billingLoadQueue env sel d')) (bq_id b) = Some (F b)
     \<and> distinct (map bq_id (billingQueue (fst (billingLoadQueue env sel d'))))
     \<and> F b \<in> set (billingQueue (fst (billingLoadQueue env sel d')))"
proof -
  have idq: "map bq_id (billingQueue d') = map bq_id (billingQueue d)"
    by (simp add: q o_def ids if_distrib cong: if_cong)
  then have dist': "distinct (map bq_id (billingQueue d'))"
    using dist by simp
  have mem': "F b \<in> set (billingQueue d')"
    using mem by (auto simp: q image_iff intro!: bexI [of _ b])
  have g: "billingGetById (fst (billingLoadQueue env sel d')) (bq_id b) = Some (F b)"
    using load_getById [OF dist' mem', of env sel] st by (simp add: ids resyncFields_settled)
  have "F b \<in> set (billingQueue (fst (billingLoadQueue env sel d')))"
    using g unfolding billingGetById_def by (auto simp: find_Some_iff)
  then show ?thesis
    using g dist' by (simp add: load_ids)
qed


lemma generateReceipt_store:
  "fst (handleGenerateReceipt env sel item db)
     = fst (billingLoadQueue env sel
         (billingMarkPaid (bq_id item) (orElse (paymentMethod item) ''cash'')
            (fmtReceipt env (receiptSeq db))
            (receiptCreate env
               \<lparr>rc_id = [], rc_receiptNumber = fmtReceipt env (receiptSeq db),
                rc_billingQueueId = bq_id item, rc_patientId = bq_patientId item,
                rc_visitId = bq_visitId item,
                rc_items = [\<lparr>description = feeType item, ri_quantity = 1,
                              unitPrice = feeAmount item, total = feeAmount item\<rparr>],
                rc_subtotal = feeAmount item, rc_discountPercent = discountPercent item,
                rc_discountAmount = discountAmount item, rc_netAmount = netAmount item,
                rc_paymentMethod = orElse (paymentMethod item) ''cash'',
                rc_paymentStatus = ''paid'', rc_createdAt = 0\<rparr>
               (db\<lparr>receiptSeq := Suc (receiptSeq db)\<rparr>))))"
  by (simp add: handleGenerateReceipt_def generateReceiptNumber_def Let_def)

lemma generateReceipt_effect:
  fixes env :: Env and sel :: timestamp and b :: BillingQueueItem and db :: Db
  assumes "distinct (map bq_id (billingQueue db))" and "b \<in> set (billingQueue db)"
  defines "db1 \<equiv> fst (handleGenerateReceipt env sel b db)"
  defines "b1 \<equiv> b\<lparr>bq_status := Paid, paymentMethod := Some (orElse (paymentMethod b) ''cash''),
                     receiptNumber := Some (fmtReceipt env (receiptSeq db))\<rparr>"
  shows "billingGetById db1 (bq_id b) = Some b1"
    and "distinct (map bq_id (billingQueue db1))"
    and "b1 \<in> set (billingQueue db1)"
    and "feeHistory db1 = feeHistory db"
    and "\<exists>r. billingReceipts db1 = billingReceipts db @ [r] \<and> rc_paymentStatus r = ''paid''
           \<and> rc_billingQueueId r = bq_id b \<and> rc_netAmount r = netAmount b
           \<and> rc_paymentMethod r = orElse (paymentMethod b) ''cash''"
proof -
  let ?F = "\<lambda>x. x\<lparr>bq_status := Paid, paymentMethod := Some (orElse (paymentMethod b) ''cash''),
                     receiptNumber := Some (fmtReceipt env (receiptSeq db))\<rparr>"
  have u: "billingGetById db1 (bq_id b) = Some (?F b)
     \<and> distinct (map bq_id (billingQueue db1)) \<and> ?F b \<in> set (billingQueue db1)"
    unfolding db1_def generateReceipt_store
    by (rule update_then_load [OF assms(1,2)])
       (simp_all add: billingMarkPaid_def billingUpdate_def receiptCreate_def)
  show "billingGetById db1 (bq_id b) = Some b1" "distinct (map bq_id (billingQueue db1))"
    "b1 \<in> set (billingQueue db1)"
    using u by (simp_all add: b1_def)
  show "feeHistory db1 = feeHistory db"
    unfolding db1_def generateReceipt_store
    by (simp add: load_other billingMarkPaid_def billingUpdate_def receiptCreate_def)
  show "\<exists>r. billingReceipts db1 = billingReceipts db @ [r] \<and> rc_paymentStatus r = ''paid''
           \<and> rc_billingQueueId r = bq_id b \<and> rc_netAmount r = netAmount b
           \<and> rc_paymentMethod r = orElse (paymentMethod b) ''cash''"
    unfolding db1_def generateReceipt_store
    by (simp add: load_other billingMarkPaid_def billingUpdate_def receiptCreate_def)
qed

lemma complete_store:
  "fst (handleComplete env sel item db)
     = fst (billingLoadQueue env sel
         (feeHistoryCreate env
            \<lparr>fh_id = [], fh_patientId = bq_patientId item, fh_visitId = bq_visitId item,
             fh_receiptId = orElse (receiptNumber item) [],
             fh_feeType = (if feeType item = ''New Patient'' then ''first-visit''
                           else ''follow-up''),
             fh_amount = netAmount item,
             fh_paymentMethod = orElse (paymentMethod item) ''cash'',
             fh_paymentStatus = ''paid'', fh_paidDate = now env\<rparr>
            (if truthy (bq_appointmentId item)
             then appointmentUpdate (orElse (bq_appointmentId item) [])
                    (\<lambda>a. a\<lparr>apt_status := ''completed''\<rparr>) (billingMarkCompleted (bq_id item) db)
             else billingMarkCompleted (bq_id item) db)))"
  by (simp add: handleComplete_def Let_def)

lemma complete_history:
  "\<exists>h. feeHistory (fst (handleComplete env sel item db)) = feeHistory db @ [h]
     \<and> fh_visitId h = bq_visitId item \<and> fh_amount h = netAmount item
     \<and> fh_paymentMethod h = orElse (paymentMethod item) ''cash''"
  unfolding complete_store
  by (simp add: load_other feeHistoryCreate_def appointmentUpdate_def
      billingMarkCompleted_def billingUpdate_def)

lemma complete_effect:
  fixes env :: Env and sel :: timestamp and b :: BillingQueueItem and db :: Db
  assumes "distinct (map bq_id (billingQueue db))" and "b \<in> set (billingQueue db)"
  defines "db1 \<equiv> fst (handleComplete env sel b db)"
  shows "billingGetById db1 (bq_id b) = Some (b\<lparr>bq_status := Completed\<rparr>)"
    and "distinct (map bq_id (billingQueue db1))"
    and "b\<lparr>bq_status := Completed\<rparr> \<in> set (billingQueue db1)"
proof -
  let ?F = "\<lambda>x. x\<lparr>bq_status := Completed\<rparr>"
  have u: "billingGetById db1 (bq_id b) = Some (?F b)
     \<and> distinct (map bq_id (billingQueue db1)) \<and> ?F b \<in> set (billingQueue db1)"
    unfolding db1_def complete_store
    by (rule update_then_load [OF assms(1,2)])
       (simp_all add: billingMarkCompleted_def billingUpdate_def feeHistoryCreate_def
          appointmentUpdate_def)
  show "billingGetById db1 (bq_id b) = Some (b\<lparr>bq_status := Completed\<rparr>)"
    "distinct (map bq_id (billingQueue db1))"
    "b\<lparr>bq_status := Completed\<rparr> \<in> set (billingQueue db1)"
    using u by simp_all
qed

lemma reopen_effect:
  fixes env :: Env and sel :: timestamp and b :: BillingQueueItem and db :: Db
  assumes "distinct (map bq_id (billingQueue db))" and "b \<in> set (billingQueue db)"
  defines "db1 \<equiv> fst (handleReopen env sel b db)"
  shows "billingGetById db1 (bq_id b) = Some (b\<lparr>bq_status := Paid\<rparr>)"
    and "distinct (map bq_id (billingQueue db1))"
    and "b\<lparr>bq_status := Paid\<rparr> \<in> set (billingQueue db1)"
    and "feeHistory db1 = feeHistory db"
proof -
  let ?F = "\<lambda>x. x\<lparr>bq_status := Paid\<rparr>"
  have u: "billingGetById db1 (bq_id b) = Some (?F b)
     \<and> distinct (map bq_id (billingQueue db1)) \<and> ?F b \<in> set (billingQueue db1)"
    unfolding db1_def handleReopen_def
    by (rule update_then_load [OF assms(1,2)]) (simp_all add: billingUpdate_def)
  show "billingGetById db1 (bq_id b) = Some (b\<lparr>bq_status := Paid\<rparr>)"
    "distinct (map bq_id (billingQueue db1))"
    "b\<lparr>bq_status := Paid\<rparr> \<in> set (billingQueue db1)"
    using u by simp_all
  show "feeHistory db1 = feeHistory db"
    by (simp add: db1_def handleReopen_def load_other billingUpdate_def)
qed

section \<open>Inline admission: helper facts\<close>

lemma markPrepared_queue:
  "billingQueue (handleMarkPrepared env i db)
     = (case pharmacyGetById db i of
          None \<Rightarrow> billingQueue db
        | Some p \<Rightarrow>
            if pq_visitId p \<in> bq_visitId ` set (billingQueue db) then billingQueue db
            else billingQueue db
              @ [(newBillingItem p
                    (fst (inlineFee (relevantAppointment env db (pq_patientId p))
                            (visitGetById db (pq_visitId p))))
                    (snd (inlineFee (relevantAppointment env db (pq_patientId p))
                            (visitGetById db (pq_visitId p)))))
                   \<lparr>bq_id := genId env (idSeq db), bq_createdAt := now env\<rparr>])"
proof (cases "pharmacyGetById db i")
  case None
  then show ?thesis
    by (simp add: handleMarkPrepared_def pharmacyMarkPrepared_def pharmacyUpdate_def)
next
  case (Some p)
  let ?d1 = "pharmacyMarkPrepared i ''pharmacy'' db"
  have rel: "relevantAppointment env ?d1 (pq_patientId p) = relevantAppointment env db (pq_patientId p)"
    by (simp add: relevantAppointment_def appointmentGetByPatient_def pharmacyMarkPrepared_def
        pharmacyUpdate_def)
  let ?d2 = "case relevantAppointment env db (pq_patientId p) of
               None \<Rightarrow> ?d1
             | Some apt \<Rightarrow> appointmentUpdate (apt_id apt)
                   (\<lambda>a. a\<lparr>apt_status := ''medicines-prepared''\<rparr>) ?d1"
  have d2: "billingQueue ?d2 = billingQueue db" "visits ?d2 = visits db" "idSeq ?d2 = idSeq db"
    by (simp_all add: pharmacyMarkPrepared_def pharmacyUpdate_def appointmentUpdate_def
        split: option.splits)
  show ?thesis
  proof (cases "pq_visitId p \<in> bq_visitId ` set (billingQueue db)")
    case True
    then have "find (\<lambda>b. bq_visitId b = pq_visitId p) (billingQueue ?d2) \<noteq> None"
      using find_visit_None [of "pq_visitId p" "billingQueue db"] by (simp add: d2)
    then show ?thesis
      using Some True by (auto simp: handleMarkPrepared_def Let_def rel d2)
  next
    case False
    then have "find (\<lambda>b. bq_visitId b = pq_visitId p) (billingQueue ?d2) = None"
      using find_visit_None [of "pq_visitId p" "billingQueue db"] by (simp add: d2)
    then show ?thesis
      using Some False
      by (simp add: handleMarkPrepared_def Let_def rel d2 billingCreate_def visitGetById_def
          split: prod.splits)
  qed
qed

lemma markPrepared_distinct:
  "distinct (map bq_visitId (billingQueue db))
     \<Longrightarrow> distinct (map bq_visitId (billingQueue (handleMarkPrepared env i db)))"
  by (simp add: markPrepared_queue newBillingItem_def split: option.splits)

lemma sweep_distinct:
  "distinct (map bq_visitId (billingQueue db))
     \<Longrightarrow> distinct (map bq_visitId (billingQueue (fst (checkPharmacyQueue env sel db))))"
  by (simp add: checkPharmacyQueue_db resyncQueue_visitIds' sweepAdmit_def admit_fold_distinct)

lemma exDb_ids: "distinct (map bq_id (billingQueue exDb))"
  by (simp add: exDb_def bill1_def bill0_def)

section \<open>What admission does to the pharmacy queue: helper facts\<close>

lemma admitPrepared_pharmacyQueue:
  "pharmacyQueue (admitPrepared env p db)
     = (if pq_visitId p \<in> bq_visitId ` set (billingQueue db) then pharmacyQueue db
        else map (\<lambda>q. if pq_id q = pq_id p then q\<lparr>pq_status := ''billed''\<rparr> else q)
               (pharmacyQueue db))"
  using find_visit_None [of "pq_visitId p" "billingQueue db"]
  by (auto simp: admitPrepared_def pharmacyUpdate_def billingCreate_def
      split: option.splits prod.splits)

lemma markPrepared_pharmacyQueue:
  "pharmacyQueue (handleMarkPrepared env i db)
     = map (\<lambda>q. if pq_id q = i then q\<lparr>pq_status := ''prepared'', preparedBy := Some ''pharmacy''\<rparr>
                 else q) (pharmacyQueue db)"
  by (simp add: handleMarkPrepared_def Let_def pharmacyMarkPrepared_def pharmacyUpdate_def
      appointmentUpdate_def billingCreate_def split: option.splits prod.splits)

section \<open>Pharmacy page: helper facts\<close>

text \<open>
  The comparator of \<open>sortItems\<close> is total and transitive, so the insertion sort returns
  a list ordered by it; enriching keeps the items and their order.
\<close>

lemma comparePharmacy_le:
  "(comparePharmacy a b \<le> 0)
     = ((priority a \<and> \<not> priority b) \<or> (priority a = priority b \<and> pq_createdAt a \<le> pq_createdAt b))"
  by (auto simp: comparePharmacy_def)

lemma set_insertBy: "set (insertBy cmp x xs) = insert x (set xs)"
  by (induction xs) auto

lemma sorted_insertBy:
  assumes total: "\<And>a b. cmp a b \<le> 0 \<or> cmp b a \<le> 0"
      and trans: "\<And>a b c. cmp a b \<le> 0 \<Longrightarrow> cmp b c \<le> 0 \<Longrightarrow> cmp a c \<le> 0"
  shows "sorted_wrt (\<lambda>a b. cmp a b \<le> 0) xs \<Longrightarrow> sorted_wrt (\<lambda>a b. cmp a b \<le> 0) (insertBy cmp x xs)"
proof (induction xs)
  case Nil
  show ?case by simp
next
  case (Cons y ys)
  show ?case
  proof (cases "cmp x y \<le> 0")
    case True
    then have "\<forall>z \<in> set ys. cmp x z \<le> 0"
      using Cons.prems trans by auto
    then show ?thesis
      using True Cons.prems by simp
  next
    case False
    then have "cmp y x \<le> 0"
      using total [of x y] by simp
    then show ?thesis
      using False Cons by (auto simp: set_insertBy)
  qed
qed

lemma sorted_jsSort:
  assumes "\<And>a b. cmp a b \<le> 0 \<or> cmp b a \<le> 0"
      and "\<And>a b c. cmp a b \<le> 0 \<Longrightarrow> cmp b c \<le> 0 \<Longrightarrow> cmp a c \<le> 0"
  shows "sorted_wrt (\<lambda>a b. cmp a b \<le> 0) (jsSort cmp xs)"
  unfolding jsSort_def
  by (induction xs) (simp_all add: sorted_insertBy [OF assms])

lemma sorted_sortItems:
  "sorted_wrt (\<lambda>a b. (priority b \<longrightarrow> priority a)
                     \<and> (priority a = priority b \<longrightarrow> pq_createdAt a \<le> pq_createdAt b))
     (sortItems items)"
proof -
  have "sorted_wrt (\<lambda>a b. comparePharmacy a b \<le> 0) (jsSort comparePharmacy items)"
    by (rule sorted_jsSort) (auto simp: comparePharmacy_le)
  then show ?thesis
    unfolding sortItems_def
    by (rule sorted_wrt_mono_rel [rotated]) (auto simp: comparePharmacy_le)
qed

lemma enrichItems_items: "map pv_item (fst (enrichItems db items prev)) = items"
proof (induction items arbitrary: prev)
  case Nil
  show ?case by simp
next
  case (Cons a items)
  obtain v p1 where a: "enrichItem db a prev = (v, p1)"
    by (cases "enrichItem db a prev")
  obtain vs p2 where b: "enrichItems db items p1 = (vs, p2)"
    by (cases "enrichItems db items p1")
  have "pv_item v = a"
    using a by (auto simp: enrichItem_def Let_def)
  then show ?case
    using Cons [of p1] by (simp add: a b)
qed

lemma pharmacyLoadQueue_lists:
  "map pv_item (queueItems (pharmacyLoadQueue db page)) = sortItems (activeItems db)
   \<and> map pv_item (preparedItems (pharmacyLoadQueue db page)) = sortItems (preparedItemsList db)"
proof -
  obtain ea p1 where a: "enrichItems db (sortItems (activeItems db)) (previousPrescriptionIds page) = (ea, p1)"
    by (cases "enrichItems db (sortItems (activeItems db)) (previousPrescriptionIds page)")
  obtain ep p2 where b: "enrichItems db (sortItems (preparedItemsList db)) p1 = (ep, p2)"
    by (cases "enrichItems db (sortItems (preparedItemsList db)) p1")
  show ?thesis
    using enrichItems_items [of db "sortItems (activeItems db)" "previousPrescriptionIds page"]
      enrichItems_items [of db "sortItems (preparedItemsList db)" p1]
    by (simp add: pharmacyLoadQueue_def a b Let_def)
qed

text \<open>
  Change detection: an item is flagged exactly when a watermark was there and differs
  from the present list of prescription ids; a refresh never changes \<open>lastUpdateTime\<close>,
  and with \<open>lastUpdateTime = 0\<close> it never changes the notification.
\<close>

lemma enrichItem_flag:
  "hasUpdates (fst (enrichItem db item prev))
     = (\<exists>w. prev (pq_id item) = Some w
            \<and> w \<noteq> joinComma (map rx_id (prescriptionGetByVisit db (pq_visitId item))))"
  by (auto simp: enrichItem_def Let_def)

lemma enrichItem_watermark:
  "snd (enrichItem db item prev) (pq_id item)
     = Some (joinComma (map rx_id (prescriptionGetByVisit db (pq_visitId item))))"
  by (simp add: enrichItem_def Let_def)

lemma loadQueue_lastUpdateTime:
  "lastUpdateTime (pharmacyLoadQueue db page) = lastUpdateTime page"
  by (simp add: pharmacyLoadQueue_def Let_def split: prod.splits)

lemma loadQueue_silent:
  "lastUpdateTime page = 0 \<Longrightarrow> notification (pharmacyLoadQueue db page) = notification page"
  by (simp add: pharmacyLoadQueue_def Let_def split: prod.splits)

lemma ex_rx_before: "prescriptionGetByVisit dbBefore ''v1'' = [rxA, rxB]"
  by (simp add: prescriptionGetByVisit_def dbBefore_def exDb_def rxA_def rxB_def)

lemma ex_rx_after: "prescriptionGetByVisit dbAfter ''v1'' = [rxA, rxB, rxC]"
  by (simp add: prescriptionGetByVisit_def dbAfter_def dbBefore_def exDb_def rxA_def rxB_def
      rxC_def)

lemma ex_lists:
  "activeItems dbBefore = [phActive]" "preparedItemsList dbBefore = []"
  "activeItems dbAfter = [phActive]" "preparedItemsList dbAfter = []"
  "visitGetById dbBefore ''v1'' = Some visit1" "visitGetById dbAfter ''v1'' = Some visit1"
  "pq_visitId phActive = ''v1''" "pq_id phActive = ''q3''"
  by (simp_all add: activeItems_def preparedItemsList_def visitGetById_def dbAfter_def
      dbBefore_def exDb_def phActive_def visit1_def)

lemma ex_joined:
  "rx_id rxA = ''rx1''" "rx_id rxB = ''rx2''" "rx_id rxC = ''rx3''"
  by (simp_all add: rxA_def rxB_def rxC_def)

lemma ex_page1:
  "pharmacyLoadQueue dbBefore initialPage
     = \<lparr>previousPrescriptionIds = [''q3'' \<mapsto> ''rx1,rx2''], lastUpdateTime = 0,
        notification = None,
        queueItems = [\<lparr>pv_item = phActive, pv_visit = Some visit1,
                        pv_prescriptions = [rxA, rxB], hasUpdates = False\<rparr>],
        preparedItems = []\<rparr>"
  by (simp add: pharmacyLoadQueue_def initialPage_def sortItems_def jsSort_def enrichItem_def
      Let_def ex_lists ex_rx_before ex_joined)

section \<open>Double arithmetic and the calculator: helper facts\<close>

text \<open>
  An operation whose exact result is a double returns it; the sum of \<^verbatim>\<open>reduce\<close> is the
  exact sum when no addition rounds.
\<close>

lemma roundNearest_double: "isDouble x \<Longrightarrow> roundNearest x = x"
  by (auto simp: isDouble_def roundDouble_def Let_def split: if_splits)

lemma jsAdd_unrounded: "isDouble (x + y) \<Longrightarrow> jsAdd (Some x) (Some y) = Some (x + y)"
  by (simp add: jsAdd_def isDouble_def)

lemma jsSub_unrounded: "isDouble (x - y) \<Longrightarrow> jsSub (Some x) (Some y) = Some (x - y)"
  by (simp add: jsSub_def isDouble_def)

lemma jsMul_unrounded: "isDouble (x * y) \<Longrightarrow> jsMul (Some x) (Some y) = Some (x * y)"
  by (simp add: jsMul_def isDouble_def)

lemma jsDiv_unrounded: "y \<noteq> 0 \<Longrightarrow> isDouble (x / y) \<Longrightarrow> jsDiv (Some x) (Some y) = Some (x / y)"
  by (simp add: jsDiv_def isDouble_def)

lemma subtotal_unrounded:
  "sumsAreDoubles s (map bl_amount xs)
     \<Longrightarrow> foldl (\<lambda>sum item. jsAdd sum (Some (orZero (Some (bl_amount item))))) (Some s) xs
         = Some (s + sum_list (map bl_amount xs))"
  by (induction xs arbitrary: s) (simp_all add: orZero_def jsAdd_unrounded add.assoc)

lemma getBillSubtotal_unrounded:
  "sumsAreDoubles 0 (map bl_amount xs) \<Longrightarrow> getBillSubtotal xs = Some (sum_list (map bl_amount xs))"
  using subtotal_unrounded [of 0 xs] by (simp add: getBillSubtotal_def)

lemma getBillSubtotal_snoc:
  "getBillSubtotal (xs @ [x]) = jsAdd (getBillSubtotal xs) (Some (bl_amount x))"
  by (simp add: getBillSubtotal_def orZero_def)

lemmas double_eval = roundDouble_def roundNearest_def binExp.simps scaleTwo_def
  roundHalfEven_def Let_def

lemma ex_doubles:
  "isDouble 120" "isDouble 200" "isDouble 2000" "isDouble 20" "isDouble 180" "isDouble 900"
  "isDouble 9" "isDouble 189"
  by (simp_all add: isDouble_def double_eval)

lemma ex_double01: "roundDouble (1 / 10) = Some double01" "roundDouble (2 / 10) = Some double02"
  "isDouble double01" "isDouble double02"
  by (simp_all add: isDouble_def double01_def double02_def double_eval)

lemma ex_steps01:
  "jsAdd (Some 0) (Some double01) = Some double01"
  "jsAdd (Some double01) (Some double02) = Some (1351079888211149 / 4503599627370496)"
  by (simp_all add: jsAdd_def double01_def double02_def double_eval)

lemma ex_steps1:
  "jsAdd (Some 0) (Some 1) = Some 1"
  "jsMul (Some 1) (Some 5) = Some 5"
  "jsDiv (Some 5) (Some 100) = Some (3602879701896397 / 72057594037927936)"
  "jsSub (Some 1) (Some (3602879701896397 / 72057594037927936))
     = Some (4278419646001971 / 4503599627370496)"
  "jsMul (Some (4278419646001971 / 4503599627370496)) (Some 5) = Some (19 / 4)"
  "jsDiv (Some (19 / 4)) (Some 100) = Some (3422735716801577 / 72057594037927936)"
  "jsAdd (Some (4278419646001971 / 4503599627370496))
         (Some (3422735716801577 / 72057594037927936))
     = Some (8984681256604139 / 9007199254740992)"
  by (simp_all add: jsAdd_def jsSub_def jsMul_def jsDiv_def double_eval)

lemma ex_calc1:
  "getBillSubtotal [amountLine 1] = Some 1"
  "getBillDiscountAmount [amountLine 1] 5 = Some (3602879701896397 / 72057594037927936)"
  "getBillTaxAmount [amountLine 1] 5 5 = Some (3422735716801577 / 72057594037927936)"
  "getBillTotal [amountLine 1] 5 5 = Some (8984681256604139 / 9007199254740992)"
proof -
  have l: "bl_amount (amountLine 1) = 1" "orZero (Some 1) = 1"
    by (simp_all add: amountLine_def orZero_def)
  show one: "getBillSubtotal [amountLine 1] = Some 1"
    by (simp only: getBillSubtotal_def foldl.simps l ex_steps1)
  show d: "getBillDiscountAmount [amountLine 1] 5 = Some (3602879701896397 / 72057594037927936)"
    by (simp only: getBillDiscountAmount_def one ex_steps1)
  show t: "getBillTaxAmount [amountLine 1] 5 5 = Some (3422735716801577 / 72057594037927936)"
    by (simp only: getBillTaxAmount_def one d ex_steps1)
  show "getBillTotal [amountLine 1] 5 5 = Some (8984681256604139 / 9007199254740992)"
    by (simp only: getBillTotal_def one d t ex_steps1)
qed

lemma ex_calc01:
  "getBillSubtotal [amountLine double01, amountLine double02]
     = Some (1351079888211149 / 4503599627370496)"
proof -
  have l: "bl_amount (amountLine double01) = double01" "bl_amount (amountLine double02) = double02"
    "orZero (Some double01) = double01" "orZero (Some double02) = double02"
    by (simp_all add: amountLine_def orZero_def)
  show ?thesis
    by (simp only: getBillSubtotal_def foldl.simps l ex_steps01)
qed

section \<open>Fee resolution of the loader: helper facts\<close>

lemma resolve_linked:
  "truthy (bq_appointmentId b) \<Longrightarrow> appointmentGetById db (orElse (bq_appointmentId b) []) = Some a
     \<Longrightarrow> apt_feeAmount a = Some fa
     \<Longrightarrow> resolveLoadedFee env db b
         = (fa, orElse (apt_feeType a) (feeType b), orElse (apt_feeStatus a) (paymentStatus b))"
  by (simp add: resolveLoadedFee_def feeFromAppointment_def)

lemma resolve_not_linked:
  assumes "\<not> (\<exists>a0 f0. truthy (bq_appointmentId b)
              \<and> appointmentGetById db (orElse (bq_appointmentId b) []) = Some a0
              \<and> apt_feeAmount a0 = Some f0)"
  shows "resolveLoadedFee env db b
     = (case todayAppointment env db (bq_patientId b) of
          None \<Rightarrow> (feeAmount b, feeType b, paymentStatus b)
        | Some a \<Rightarrow>
            (case apt_feeAmount a of
               None \<Rightarrow> (feeAmount b, feeType b, paymentStatus b)
             | Some fa \<Rightarrow> (fa, orElse (apt_feeType a) (feeType b),
                            orElse (apt_feeStatus a) (paymentStatus b))))"
proof -
  have "(if truthy (bq_appointmentId b) then
           (case appointmentGetById db (orElse (bq_appointmentId b) []) of
              None \<Rightarrow> None
            | Some apt \<Rightarrow> feeFromAppointment b apt)
         else None) = None"
    using assms by (auto simp: feeFromAppointment_def split: option.splits)
  then show ?thesis
    by (simp add: resolveLoadedFee_def feeFromAppointment_def split: option.splits)
qed

lemma ex2_ids: "distinct (map bq_id (billingQueue exDb2))"
  by (simp add: exDb2_def bill1_def bill0_def bill3_def bill4_def bill5_def bill6_def)

lemma ex2_mem:
  "bill1 \<in> set (billingQueue exDb2)" "bill0 \<in> set (billingQueue exDb2)"
  "bill3 \<in> set (billingQueue exDb2)" "bill4 \<in> set (billingQueue exDb2)"
  "bill5 \<in> set (billingQueue exDb2)" "bill6 \<in> set (billingQueue exDb2)"
  by (simp_all add: exDb2_def)

lemma ex2_linked:
  "appointmentGetById exDb2 ''a1'' = Some aptFee" "appointmentGetById exDb2 ''a2'' = Some aptNoFee"
  by (simp_all add: appointmentGetById_def exDb2_def aptFee_def aptNoFee_def)

lemma ex2_doubles: "isDouble 670" "isDouble 740" "isDouble 800"
  by (simp_all add: isDouble_def double_eval)

lemma ex0_resolve: "resolveLoadedFee exEnv exDb bill0 = (700, ''New Patient'', ''paid'')"
  by (simp add: resolveLoadedFee_def truthy_def orElse_def appointmentGetById_def exDb_def
      bill0_def aptFee_def aptNoFee_def feeFromAppointment_def)

section \<open>The claims\<close>

text \<open>
  C1: at most one billing queue item per visit. Both admission paths (the sweep
  \<open>checkPharmacyQueue\<close> and \<open>handleMarkPrepared\<close>) keep the visit ids of the billing
  queue distinct; each creates an item only when no billing item has the visit id of
  the pharmacy item, whatever the status of an existing one, and then exactly one; and
  a second sweep right after a first admits nothing: the billing queue holds the same
  items.
\<close>

theorem C1_one_billing_item_per_visit:
  "(distinct (map bq_visitId (billingQueue db))
      \<longrightarrow> distinct (map bq_visitId (billingQueue (fst (checkPharmacyQueue env sel db))))
        \<and> distinct (map bq_visitId (billingQueue (handleMarkPrepared env i db))))
   \<and> (pq_visitId p \<in> bq_visitId ` set (billingQueue db)
        \<longrightarrow> billingQueue (admitPrepared env p db) = billingQueue db)
   \<and> (pq_visitId p \<notin> bq_visitId ` set (billingQueue db)
        \<longrightarrow> (\<exists>x. billingQueue (admitPrepared env p db) = billingQueue db @ [x]
                  \<and> bq_visitId x = pq_visitId p))
   \<and> (pharmacyGetById db i = Some p \<and> pq_visitId p \<in> bq_visitId ` set (billingQueue db)
        \<longrightarrow> billingQueue (handleMarkPrepared env i db) = billingQueue db)
   \<and> (pharmacyGetById db i = Some p \<and> pq_visitId p \<notin> bq_visitId ` set (billingQueue db)
        \<longrightarrow> (\<exists>x. billingQueue (handleMarkPrepared env i db) = billingQueue db @ [x]
                  \<and> bq_visitId x = pq_visitId p))
   \<and> (pharmacyGetById db i = None
        \<longrightarrow> billingQueue (handleMarkPrepared env i db) = billingQueue db)
   \<and> sweepAdmit env' (fst (checkPharmacyQueue env sel db)) = fst (checkPharmacyQueue env sel db)
   \<and> map bq_id (billingQueue (fst (checkPharmacyQueue env' sel' (fst (checkPharmacyQueue env sel db)))))
       = map bq_id (billingQueue (fst (checkPharmacyQueue env sel db)))"
proof -
  have inv: "distinct (map bq_visitId (billingQueue db))
      \<longrightarrow> distinct (map bq_visitId (billingQueue (fst (checkPharmacyQueue env sel db))))
        \<and> distinct (map bq_visitId (billingQueue (handleMarkPrepared env i db)))"
    by (simp add: sweep_distinct markPrepared_distinct)
  have sweep: "(pq_visitId p \<in> bq_visitId ` set (billingQueue db)
        \<longrightarrow> billingQueue (admitPrepared env p db) = billingQueue db)
     \<and> (pq_visitId p \<notin> bq_visitId ` set (billingQueue db)
        \<longrightarrow> (\<exists>x. billingQueue (admitPrepared env p db) = billingQueue db @ [x]
                  \<and> bq_visitId x = pq_visitId p))"
    by (simp add: admitPrepared_queue newBillingItem_def)
  have inline: "(pharmacyGetById db i = Some p \<and> pq_visitId p \<in> bq_visitId ` set (billingQueue db)
        \<longrightarrow> billingQueue (handleMarkPrepared env i db) = billingQueue db)
     \<and> (pharmacyGetById db i = Some p \<and> pq_visitId p \<notin> bq_visitId ` set (billingQueue db)
        \<longrightarrow> (\<exists>x. billingQueue (handleMarkPrepared env i db) = billingQueue db @ [x]
                  \<and> bq_visitId x = pq_visitId p))
     \<and> (pharmacyGetById db i = None
        \<longrightarrow> billingQueue (handleMarkPrepared env i db) = billingQueue db)"
    by (simp add: markPrepared_queue newBillingItem_def)
  have twice: "map bq_id (billingQueue (fst (checkPharmacyQueue env' sel' (fst (checkPharmacyQueue env sel db)))))
       = map bq_id (billingQueue (fst (checkPharmacyQueue env sel db)))"
    unfolding checkPharmacyQueue_def [of env' sel'] sweep_twice_admits_nothing
    by (rule load_ids)
  show ?thesis
    using inv sweep inline twice sweep_twice_admits_nothing [of env' env sel db] by blast
qed

text \<open>
  Witness for C1: on the sample day the visit of q1 is already billed and admits nothing,
  the visit of q2 is not and gets one item (id0); a second sweep leaves the three items.
\<close>

theorem C1_one_billing_item_per_visit_witness:
  "distinct (map bq_visitId (billingQueue exDb))
   \<and> distinct (map bq_visitId (billingQueue (fst (checkPharmacyQueue exEnv 200 exDb))))
   \<and> pq_visitId ph1 \<in> bq_visitId ` set (billingQueue exDb)
   \<and> billingQueue (admitPrepared exEnv ph1 exDb) = billingQueue exDb
   \<and> pharmacyGetById exDb ''q2'' = Some ph2
   \<and> pq_visitId ph2 \<notin> bq_visitId ` set (billingQueue exDb)
   \<and> length (billingQueue (handleMarkPrepared exEnv ''q2'' exDb)) = 3
   \<and> map bq_id (billingQueue (fst (checkPharmacyQueue exEnv 200 exDb))) = [''b1'', ''b0'', ''id0'']
   \<and> map bq_id (billingQueue (fst (checkPharmacyQueue exEnv 200
         (fst (checkPharmacyQueue exEnv 200 exDb))))) = [''b1'', ''b0'', ''id0'']"
proof -
  have d: "distinct (map bq_visitId (billingQueue exDb))"
    by (simp add: exDb_def bill1_def bill0_def)
  have m1: "pq_visitId ph1 \<in> bq_visitId ` set (billingQueue exDb)"
    by (simp add: exDb_def bill1_def bill0_def ph1_def)
  have g2: "pharmacyGetById exDb ''q2'' = Some ph2"
    by (simp add: pharmacyGetById_def exDb_def ph1_def ph2_def)
  have m2: "pq_visitId ph2 \<notin> bq_visitId ` set (billingQueue exDb)"
    by (simp add: exDb_def bill1_def bill0_def ph2_def)
  have first: "map bq_id (billingQueue (fst (checkPharmacyQueue exEnv 200 exDb))) = [''b1'', ''b0'', ''id0'']"
    by (simp add: checkPharmacyQueue_def load_ids sweepAdmit_def admitPrepared_queue exDb_def
        ph1_def ph2_def bill1_def bill0_def newBillingItem_def exEnv_def showNat.simps
        pharmacyUpdate_def admitPrepared_def billingCreate_def find_visit_None
        split: option.splits prod.splits)
  note c1 = C1_one_billing_item_per_visit [of exDb exEnv 200 "''q2''" ph1 exEnv 200]
  note c2 = C1_one_billing_item_per_visit [of exDb exEnv 200 "''q2''" ph2 exEnv 200]
  have a: "distinct (map bq_visitId (billingQueue (fst (checkPharmacyQueue exEnv 200 exDb))))"
    using c1 d by blast
  have b: "billingQueue (admitPrepared exEnv ph1 exDb) = billingQueue exDb"
    using c1 m1 by blast
  have "\<exists>x. billingQueue (handleMarkPrepared exEnv ''q2'' exDb) = billingQueue exDb @ [x]
                  \<and> bq_visitId x = pq_visitId ph2"
    using c2 g2 m2 by blast
  then have c: "length (billingQueue (handleMarkPrepared exEnv ''q2'' exDb)) = 3"
    by (auto simp: exDb_def)
  have e: "map bq_id (billingQueue (fst (checkPharmacyQueue exEnv 200
         (fst (checkPharmacyQueue exEnv 200 exDb))))) = [''b1'', ''b0'', ''id0'']"
    using c1 first by simp
  show ?thesis
    using d a m1 b g2 m2 c first e by blast
qed

text \<open>
  C10: the loader of the billing page works on the items created on the selected day
  only. Every item of another day, and every item that is not pending, is left as it
  is; both views hold items of the selected day only, namely all of them, split by
  status; nothing but the billing queue changes. (The store holds one record per id.)
\<close>

theorem C10_loader_frame:
  assumes "distinct (map bq_id (billingQueue db))"
      and "billingLoadQueue env sel db = (db', pend, cmpl)"
  shows "length (billingQueue db') = length (billingQueue db)
     \<and> (\<forall>i < length (billingQueue db).
           \<not> onSelectedDay env sel (billingQueue db ! i) \<or> bq_status (billingQueue db ! i) \<noteq> Pending
           \<longrightarrow> billingQueue db' ! i = billingQueue db ! i)
     \<and> (\<forall>b \<in> set pend \<union> set cmpl. onSelectedDay env sel b)
     \<and> mset pend = mset (filter (\<lambda>b. onSelectedDay env sel b
                                   \<and> (bq_status b = Pending \<or> bq_status b = Paid)) (billingQueue db'))
     \<and> mset cmpl = mset (filter (\<lambda>b. onSelectedDay env sel b \<and> bq_status b = Completed)
                            (billingQueue db'))
     \<and> db' = db\<lparr>billingQueue := billingQueue db'\<rparr>"
proof -
  let ?F = "\<lambda>x. if onSelectedDay env sel x then resyncFields env db x x else x"
  have db': "db' = fst (billingLoadQueue env sel db)"
    using assms(2) by simp
  have q: "billingQueue db' = map ?F (billingQueue db)"
    by (simp add: db' billingLoadQueue_def Let_def resyncQueue_queue [OF assms(1)])
  have len: "length (billingQueue db') = length (billingQueue db)"
    by (simp add: q)
  have same: "\<forall>i < length (billingQueue db).
           \<not> onSelectedDay env sel (billingQueue db ! i) \<or> bq_status (billingQueue db ! i) \<noteq> Pending
           \<longrightarrow> billingQueue db' ! i = billingQueue db ! i"
    by (auto simp: q resyncFields_def)
  have pend: "pend = jsSort (\<lambda>a b. bq_createdAt a - bq_createdAt b)
      (filter (\<lambda>item. bq_status item = Pending \<or> bq_status item = Paid)
         (filter (onSelectedDay env sel) (billingQueue db')))"
    using assms(2) by (simp add: db' billingLoadQueue_def Let_def)
  have cmpl: "cmpl = jsSort (\<lambda>a b. bq_createdAt b - bq_createdAt a)
      (filter (\<lambda>item. bq_status item = Completed)
         (filter (onSelectedDay env sel) (billingQueue db')))"
    using assms(2) by (simp add: db' billingLoadQueue_def Let_def)
  have views: "\<forall>b \<in> set pend \<union> set cmpl. onSelectedDay env sel b"
    by (auto simp: pend cmpl set_jsSort)
  have mp: "mset pend = mset (filter (\<lambda>b. onSelectedDay env sel b
                                   \<and> (bq_status b = Pending \<or> bq_status b = Paid)) (billingQueue db'))"
    by (simp add: pend mset_jsSort conj_commute)
  have mc: "mset cmpl = mset (filter (\<lambda>b. onSelectedDay env sel b \<and> bq_status b = Completed)
                            (billingQueue db'))"
    by (simp add: cmpl mset_jsSort conj_commute)
  have fr: "db' = db\<lparr>billingQueue := billingQueue db'\<rparr>"
    by (simp add: db' billingLoadQueue_frame)
  show ?thesis
    using len same views mp mc fr by blast
qed

text \<open>
  Witness for C10: b0 was created on the next day; it is pending and its appointment
  would give it another fee, yet the loader leaves it unchanged and shows it in neither
  view.
\<close>

theorem C10_loader_frame_witness:
  "distinct (map bq_id (billingQueue exDb))
   \<and> \<not> onSelectedDay exEnv 200 bill0
   \<and> bq_status bill0 = Pending
   \<and> resolveLoadedFee exEnv exDb bill0 \<noteq> (feeAmount bill0, feeType bill0, paymentStatus bill0)
   \<and> billingQueue (fst (billingLoadQueue exEnv 200 exDb)) ! 1 = bill0
   \<and> bill0 \<notin> set (fst (snd (billingLoadQueue exEnv 200 exDb)))
   \<and> bill0 \<notin> set (snd (snd (billingLoadQueue exEnv 200 exDb)))"
proof -
  obtain db' pend cmpl where l: "billingLoadQueue exEnv 200 exDb = (db', pend, cmpl)"
    by (cases "billingLoadQueue exEnv 200 exDb") auto
  have day: "\<not> onSelectedDay exEnv 200 bill0"
    by (simp add: onSelectedDay_def toDateString_def msPerDay_def exEnv_def bill0_def)
  have st: "bq_status bill0 = Pending"
    by (simp add: bill0_def)
  have r: "resolveLoadedFee exEnv exDb bill0 \<noteq> (feeAmount bill0, feeType bill0, paymentStatus bill0)"
    by (simp add: resolveLoadedFee_def truthy_def orElse_def appointmentGetById_def exDb_def
        bill0_def aptFee_def aptNoFee_def feeFromAppointment_def)
  have n: "billingQueue exDb ! 1 = bill0" "(1::nat) < length (billingQueue exDb)"
    by (simp_all add: exDb_def)
  note c = C10_loader_frame [OF exDb_ids l]
  have same: "billingQueue db' ! 1 = bill0"
    using c n day by metis
  have "\<forall>b \<in> set pend \<union> set cmpl. onSelectedDay exEnv 200 b"
    using c by blast
  then have "bill0 \<notin> set pend" "bill0 \<notin> set cmpl"
    using day by auto
  then show ?thesis
    using exDb_ids day st r same by (simp add: l)
qed

text \<open>
  C4: the state machine scenario. For a pending item \<open>b\<close> whose payment method is cash
  (or unset, which \<^verbatim>\<open>handleGenerateReceipt\<close> reads as cash): generating the receipt
  makes the stored item paid with its net amount unchanged and appends a receipt with
  payment status paid; completing it then makes it completed and appends exactly one
  fee-history record, with payment method cash and the item's net amount; reopening it
  makes it paid again and leaves the fee history as it is (one record more than at the
  start). Each handler gets the item as the store holds it after the previous step.
  (The store holds one record per id.)
\<close>

theorem C4_receipt_complete_reopen:
  fixes db :: Db and b :: BillingQueueItem
  assumes ids: "distinct (map bq_id (billingQueue db))"
      and mem: "b \<in> set (billingQueue db)"
      and pending: "bq_status b = Pending"
      and cash: "orElse (paymentMethod b) ''cash'' = ''cash''"
  shows "let db1 = fst (handleGenerateReceipt env1 sel1 b db);
             b1 = b\<lparr>bq_status := Paid, paymentMethod := Some ''cash'',
                     receiptNumber := Some (fmtReceipt env1 (receiptSeq db))\<rparr>;
             db2 = fst (handleComplete env2 sel2 b1 db1);
             b2 = b1\<lparr>bq_status := Completed\<rparr>;
             db3 = fst (handleReopen env3 sel3 b2 db2);
             b3 = b2\<lparr>bq_status := Paid\<rparr>
         in billingGetById db1 (bq_id b) = Some b1
            \<and> bq_status b1 = Paid \<and> netAmount b1 = netAmount b
            \<and> (\<exists>r. billingReceipts db1 = billingReceipts db @ [r]
                    \<and> rc_billingQueueId r = bq_id b \<and> rc_paymentStatus r = ''paid''
                    \<and> rc_paymentMethod r = ''cash'' \<and> rc_netAmount r = netAmount b)
            \<and> feeHistory db1 = feeHistory db
            \<and> billingGetById db2 (bq_id b) = Some b2 \<and> bq_status b2 = Completed
            \<and> (\<exists>h. feeHistory db2 = feeHistory db @ [h] \<and> fh_visitId h = bq_visitId b
                    \<and> fh_paymentMethod h = ''cash'' \<and> fh_amount h = netAmount b)
            \<and> billingGetById db3 (bq_id b) = Some b3 \<and> bq_status b3 = Paid
            \<and> feeHistory db3 = feeHistory db2
            \<and> length (feeHistory db3) = length (feeHistory db) + 1"
proof -
  define db1 where "db1 = fst (handleGenerateReceipt env1 sel1 b db)"
  define b1 where "b1 = b\<lparr>bq_status := Paid, paymentMethod := Some ''cash'',
                     receiptNumber := Some (fmtReceipt env1 (receiptSeq db))\<rparr>"
  define db2 where "db2 = fst (handleComplete env2 sel2 b1 db1)"
  define b2 where "b2 = b1\<lparr>bq_status := Completed\<rparr>"
  define db3 where "db3 = fst (handleReopen env3 sel3 b2 db2)"
  define b3 where "b3 = b2\<lparr>bq_status := Paid\<rparr>"
  note g = generateReceipt_effect [OF ids mem, of env1 sel1, unfolded cash, folded db1_def b1_def]
  have id1: "bq_id b1 = bq_id b" and v1: "bq_visitId b1 = bq_visitId b"
    and n1: "netAmount b1 = netAmount b" and p1: "paymentMethod b1 = Some ''cash''"
    and s1: "bq_status b1 = Paid"
    by (simp_all add: b1_def)
  note c = complete_effect [OF g(2,3), of env2 sel2, folded db2_def b2_def, unfolded id1]
  have id2: "bq_id b2 = bq_id b" and s2: "bq_status b2 = Completed"
    by (simp_all add: b2_def id1)
  obtain h where h: "feeHistory db2 = feeHistory db1 @ [h]" "fh_visitId h = bq_visitId b1"
      "fh_amount h = netAmount b1" "fh_paymentMethod h = orElse (paymentMethod b1) ''cash''"
    using complete_history [of env2 sel2 b1 db1] unfolding db2_def by blast
  note r = reopen_effect [OF c(2,3), of env3 sel3, folded db3_def b3_def, unfolded id2]
  have s3: "bq_status b3 = Paid"
    by (simp add: b3_def)
  have hist: "\<exists>h. feeHistory db2 = feeHistory db @ [h] \<and> fh_visitId h = bq_visitId b
                    \<and> fh_paymentMethod h = ''cash'' \<and> fh_amount h = netAmount b"
    using h g(4) by (simp add: v1 n1 p1 orElse_def)
  have len: "length (feeHistory db3) = length (feeHistory db) + 1"
    using r(4) h(1) g(4) by simp
  have "billingGetById db1 (bq_id b) = Some b1
            \<and> bq_status b1 = Paid \<and> netAmount b1 = netAmount b
            \<and> (\<exists>r. billingReceipts db1 = billingReceipts db @ [r]
                    \<and> rc_billingQueueId r = bq_id b \<and> rc_paymentStatus r = ''paid''
                    \<and> rc_paymentMethod r = ''cash'' \<and> rc_netAmount r = netAmount b)
            \<and> feeHistory db1 = feeHistory db
            \<and> billingGetById db2 (bq_id b) = Some b2 \<and> bq_status b2 = Completed
            \<and> (\<exists>h. feeHistory db2 = feeHistory db @ [h] \<and> fh_visitId h = bq_visitId b
                    \<and> fh_paymentMethod h = ''cash'' \<and> fh_amount h = netAmount b)
            \<and> billingGetById db3 (bq_id b) = Some b3 \<and> bq_status b3 = Paid
            \<and> feeHistory db3 = feeHistory db2
            \<and> length (feeHistory db3) = length (feeHistory db) + 1"
    using g(1,4,5) s1 n1 c(1) s2 hist r(1,4) s3 len by blast
  then show ?thesis
    unfolding Let_def db1_def [symmetric] b1_def [symmetric] db2_def [symmetric]
      b2_def [symmetric] db3_def [symmetric] b3_def [symmetric] .
qed

text \<open>
  Witness for C4: the scenario on the pending item b1 of the sample day (net amount 270,
  no payment method yet, empty fee history).
\<close>

theorem C4_receipt_complete_reopen_witness:
  "distinct (map bq_id (billingQueue exDb)) \<and> bill1 \<in> set (billingQueue exDb)
   \<and> bq_status bill1 = Pending \<and> orElse (paymentMethod bill1) ''cash'' = ''cash''
   \<and> netAmount bill1 = 270 \<and> feeHistory exDb = []
   \<and> (let db1 = fst (handleGenerateReceipt exEnv 200 bill1 exDb);
           b1 = bill1\<lparr>bq_status := Paid, paymentMethod := Some ''cash'',
                       receiptNumber := Some ''R0''\<rparr>;
           db2 = fst (handleComplete exEnv 200 b1 db1);
           b2 = b1\<lparr>bq_status := Completed\<rparr>;
           db3 = fst (handleReopen exEnv 200 b2 db2)
       in billingGetById db1 ''b1'' = Some b1
          \<and> billingGetById db2 ''b1'' = Some b2
          \<and> (\<exists>h. feeHistory db2 = [h] \<and> fh_paymentMethod h = ''cash'' \<and> fh_amount h = 270)
          \<and> billingGetById db3 ''b1'' = Some (b2\<lparr>bq_status := Paid\<rparr>)
          \<and> length (feeHistory db3) = 1)"
proof -
  have m: "bill1 \<in> set (billingQueue exDb)"
    by (simp add: exDb_def)
  have p: "bq_status bill1 = Pending" and c: "orElse (paymentMethod bill1) ''cash'' = ''cash''"
    and n: "netAmount bill1 = 270" and i: "bq_id bill1 = ''b1''"
    by (simp_all add: bill1_def orElse_def)
  have e: "feeHistory exDb = []" "fmtReceipt exEnv (receiptSeq exDb) = ''R0''"
    by (simp_all add: exDb_def exEnv_def showNat.simps)
  show ?thesis
    using C4_receipt_complete_reopen [OF exDb_ids m p c, of exEnv 200 exEnv 200 exEnv 200]
      exDb_ids m p c
    unfolding Let_def by (auto simp: n i e)
qed

text \<open>
  C9: \<^verbatim>\<open>handleComplete\<close> appends a fee-history record for the item's visit on every
  call, whatever the store holds; and complete, reopen, complete on one billing item
  (reopen makes it paid again, where complete is offered) leaves two more fee-history
  records, both for that visit.
\<close>

theorem C9_complete_appends_every_time:
  "(\<exists>h. feeHistory (fst (handleComplete env sel item d)) = feeHistory d @ [h]
        \<and> fh_visitId h = bq_visitId item)
   \<and> (distinct (map bq_id (billingQueue db)) \<and> b \<in> set (billingQueue db) \<longrightarrow>
        (let db1 = fst (handleComplete env1 sel1 b db);
             b1 = b\<lparr>bq_status := Completed\<rparr>;
             db2 = fst (handleReopen env2 sel2 b1 db1);
             b2 = b1\<lparr>bq_status := Paid\<rparr>;
             db3 = fst (handleComplete env3 sel3 b2 db2)
         in billingGetById db1 (bq_id b) = Some b1
            \<and> billingGetById db2 (bq_id b) = Some b2 \<and> bq_status b2 = Paid
            \<and> billingGetById db3 (bq_id b) = Some (b2\<lparr>bq_status := Completed\<rparr>)
            \<and> (\<exists>h1 h2. feeHistory db3 = feeHistory db @ [h1, h2]
                    \<and> fh_visitId h1 = bq_visitId b \<and> fh_visitId h2 = bq_visitId b)))"
proof -
  have always: "\<exists>h. feeHistory (fst (handleComplete env sel item d)) = feeHistory d @ [h]
        \<and> fh_visitId h = bq_visitId item"
    using complete_history [of env sel item d] by blast
  have seq: "let db1 = fst (handleComplete env1 sel1 b db);
             b1 = b\<lparr>bq_status := Completed\<rparr>;
             db2 = fst (handleReopen env2 sel2 b1 db1);
             b2 = b1\<lparr>bq_status := Paid\<rparr>;
             db3 = fst (handleComplete env3 sel3 b2 db2)
         in billingGetById db1 (bq_id b) = Some b1
            \<and> billingGetById db2 (bq_id b) = Some b2 \<and> bq_status b2 = Paid
            \<and> billingGetById db3 (bq_id b) = Some (b2\<lparr>bq_status := Completed\<rparr>)
            \<and> (\<exists>h1 h2. feeHistory db3 = feeHistory db @ [h1, h2]
                    \<and> fh_visitId h1 = bq_visitId b \<and> fh_visitId h2 = bq_visitId b)"
    if ids: "distinct (map bq_id (billingQueue db))" and mem: "b \<in> set (billingQueue db)"
  proof -
    define db1 where "db1 = fst (handleComplete env1 sel1 b db)"
    define b1 where "b1 = b\<lparr>bq_status := Completed\<rparr>"
    define db2 where "db2 = fst (handleReopen env2 sel2 b1 db1)"
    define b2 where "b2 = b1\<lparr>bq_status := Paid\<rparr>"
    define db3 where "db3 = fst (handleComplete env3 sel3 b2 db2)"
    note c1 = complete_effect [OF ids mem, of env1 sel1, folded db1_def b1_def]
    have id1: "bq_id b1 = bq_id b" by (simp add: b1_def)
    note r = reopen_effect [OF c1(2,3), of env2 sel2, folded db2_def b2_def, unfolded id1]
    have id2: "bq_id b2 = bq_id b" and v2: "bq_visitId b2 = bq_visitId b"
      and s2: "bq_status b2 = Paid"
      by (simp_all add: b2_def b1_def)
    note c2 = complete_effect [OF r(2,3), of env3 sel3, folded db3_def, unfolded id2]
    obtain h1 where h1: "feeHistory db1 = feeHistory db @ [h1]" "fh_visitId h1 = bq_visitId b"
      using complete_history [of env1 sel1 b db] unfolding db1_def by blast
    obtain h2 where h2: "feeHistory db3 = feeHistory db2 @ [h2]" "fh_visitId h2 = bq_visitId b2"
      using complete_history [of env3 sel3 b2 db2] unfolding db3_def by blast
    have "feeHistory db3 = feeHistory db @ [h1, h2]"
      using h1(1) h2(1) r(4) by simp
    then have "billingGetById db1 (bq_id b) = Some b1
            \<and> billingGetById db2 (bq_id b) = Some b2 \<and> bq_status b2 = Paid
            \<and> billingGetById db3 (bq_id b) = Some (b2\<lparr>bq_status := Completed\<rparr>)
            \<and> (\<exists>h1 h2. feeHistory db3 = feeHistory db @ [h1, h2]
                    \<and> fh_visitId h1 = bq_visitId b \<and> fh_visitId h2 = bq_visitId b)"
      using c1(1) r(1) s2 c2(1) h1(2) h2(2) v2 by auto
    then show ?thesis
      unfolding Let_def db1_def [symmetric] b1_def [symmetric] db2_def [symmetric]
        b2_def [symmetric] db3_def [symmetric] .
  qed
  show ?thesis
    using always seq by blast
qed

text \<open>
  Witness for C9: complete, reopen, complete on b1 of the sample day gives two
  fee-history records for visit v1.
\<close>

theorem C9_complete_appends_every_time_witness:
  "distinct (map bq_id (billingQueue exDb)) \<and> bill1 \<in> set (billingQueue exDb)
   \<and> feeHistory exDb = []
   \<and> (let db1 = fst (handleComplete exEnv 200 bill1 exDb);
           b1 = bill1\<lparr>bq_status := Completed\<rparr>;
           db2 = fst (handleReopen exEnv 200 b1 db1);
           b2 = b1\<lparr>bq_status := Paid\<rparr>;
           db3 = fst (handleComplete exEnv 200 b2 db2)
       in billingGetById db2 ''b1'' = Some b2
          \<and> map fh_visitId (feeHistory db3) = [''v1'', ''v1''])"
proof -
  have m: "bill1 \<in> set (billingQueue exDb)"
    by (simp add: exDb_def)
  have e: "feeHistory exDb = []" "bq_id bill1 = ''b1''" "bq_visitId bill1 = ''v1''"
    by (simp_all add: exDb_def bill1_def)
  show ?thesis
    using C9_complete_appends_every_time [of exEnv 200 bill1 exDb exDb bill1 exEnv 200 exEnv 200 exEnv 200]
      exDb_ids m
    unfolding Let_def by (auto simp: e)
qed

text \<open>
  Counterexample to C3 as stated: on the sample day q1 is prepared and its visit already
  has a billing item; after the sweep q1 is still prepared, not billed. And marking q2
  prepared on the pharmacy page creates the billing item of its visit and leaves q2
  prepared, not billed.
\<close>

theorem C3_counterexample:
  "ph1 \<in> set (pharmacyQueue exDb) \<and> pq_status ph1 = ''prepared''
   \<and> pq_visitId ph1 \<in> bq_visitId ` set (billingQueue exDb)
   \<and> pharmacyGetById (fst (checkPharmacyQueue exEnv 200 exDb)) (pq_id ph1) = Some ph1
   \<and> pq_status ph1 \<noteq> ''billed''
   \<and> pharmacyGetById exDb ''q2'' = Some ph2
   \<and> pq_visitId ph2 \<notin> bq_visitId ` set (billingQueue exDb)
   \<and> map pq_status (pharmacyQueue (handleMarkPrepared exEnv ''q2'' exDb))
       = [''prepared'', ''prepared'']
   \<and> map bq_visitId (billingQueue (handleMarkPrepared exEnv ''q2'' exDb)) = [''v1'', ''v0'', ''v2'']"
  by (simp add: checkPharmacyQueue_db sweepAdmit_def admitPrepared_pharmacyQueue
      admitPrepared_visitId_set markPrepared_pharmacyQueue markPrepared_queue
      pharmacyGetById_def exDb_def ph1_def ph2_def bill1_def bill0_def newBillingItem_def)

text \<open>
  C3, amended: one step of the sweep marks the pharmacy item billed exactly when it
  creates the billing item of its visit; when a billing item with that visit id exists,
  it leaves the pharmacy queue as it is. \<open>handleMarkPrepared\<close> sets the item to prepared
  (recording who prepared it) and never to billed, whether or not it creates a billing
  item: it changes the pharmacy queue through the store's \<open>markPrepared\<close> only.
\<close>

theorem C3_billed_only_on_creation:
  "(pq_visitId p \<in> bq_visitId ` set (billingQueue db)
      \<longrightarrow> pharmacyQueue (admitPrepared env p db) = pharmacyQueue db)
   \<and> (pq_visitId p \<notin> bq_visitId ` set (billingQueue db)
      \<longrightarrow> pharmacyQueue (admitPrepared env p db)
          = map (\<lambda>q. if pq_id q = pq_id p then q\<lparr>pq_status := ''billed''\<rparr> else q)
              (pharmacyQueue db)
        \<and> length (billingQueue (admitPrepared env p db)) = length (billingQueue db) + 1)
   \<and> pharmacyQueue (handleMarkPrepared env i db)
       = pharmacyQueue (pharmacyMarkPrepared i ''pharmacy'' db)
   \<and> pharmacyQueue (handleMarkPrepared env i db)
       = map (\<lambda>q. if pq_id q = i then q\<lparr>pq_status := ''prepared'', preparedBy := Some ''pharmacy''\<rparr>
                   else q) (pharmacyQueue db)"
  by (simp add: admitPrepared_pharmacyQueue markPrepared_pharmacyQueue admitPrepared_queue
      pharmacyMarkPrepared_def pharmacyUpdate_def)

text \<open>
  Witness for the amended C3: q1 (visit already billed) stays prepared in the sweep, q2
  (visit not billed) becomes billed as its billing item is created; through
  \<open>handleMarkPrepared\<close> q2 is prepared.
\<close>

theorem C3_billed_only_on_creation_witness:
  "pq_visitId ph1 \<in> bq_visitId ` set (billingQueue exDb)
   \<and> pharmacyQueue (admitPrepared exEnv ph1 exDb) = [ph1, ph2]
   \<and> pq_visitId ph2 \<notin> bq_visitId ` set (billingQueue exDb)
   \<and> pharmacyQueue (admitPrepared exEnv ph2 exDb) = [ph1, ph2\<lparr>pq_status := ''billed''\<rparr>]
   \<and> length (billingQueue (admitPrepared exEnv ph2 exDb)) = 3
   \<and> pharmacyQueue (handleMarkPrepared exEnv ''q2'' exDb)
       = [ph1, ph2\<lparr>pq_status := ''prepared'', preparedBy := Some ''pharmacy''\<rparr>]"
proof -
  have m1: "pq_visitId ph1 \<in> bq_visitId ` set (billingQueue exDb)"
    and m2: "pq_visitId ph2 \<notin> bq_visitId ` set (billingQueue exDb)"
    by (simp_all add: exDb_def bill1_def bill0_def ph1_def ph2_def)
  have q: "pharmacyQueue exDb = [ph1, ph2]" "length (billingQueue exDb) = 2"
    "pq_id ph1 = ''q1''" "pq_id ph2 = ''q2''"
    by (simp_all add: exDb_def ph1_def ph2_def)
  show ?thesis
    using C3_billed_only_on_creation [of ph1 exDb exEnv "''q2''"]
      C3_billed_only_on_creation [of ph2 exDb exEnv "''q2''"] m1 m2
    by (simp add: q)
qed




text \<open>
  C6: the active listing of the pharmacy page holds exactly the queue items in status
  pending or preparing, the prepared listing exactly those in status prepared; in both,
  a priority item never comes after a non-priority one, and of two items of equal
  priority the one that comes first was not created later.
\<close>

theorem C6_pharmacy_listing_order:
  "map pv_item (queueItems (pharmacyLoadQueue db page)) = sortItems (activeItems db)
   \<and> mset (sortItems (activeItems db))
       = mset (filter (\<lambda>item. pq_status item = ''pending'' \<or> pq_status item = ''preparing'')
                 (pharmacyQueue db))
   \<and> sorted_wrt (\<lambda>a b. (priority b \<longrightarrow> priority a)
                     \<and> (priority a = priority b \<longrightarrow> pq_createdAt a \<le> pq_createdAt b))
       (sortItems (activeItems db))
   \<and> map pv_item (preparedItems (pharmacyLoadQueue db page)) = sortItems (preparedItemsList db)
   \<and> mset (sortItems (preparedItemsList db))
       = mset (filter (\<lambda>item. pq_status item = ''prepared'') (pharmacyQueue db))
   \<and> sorted_wrt (\<lambda>a b. (priority b \<longrightarrow> priority a)
                     \<and> (priority a = priority b \<longrightarrow> pq_createdAt a \<le> pq_createdAt b))
       (sortItems (preparedItemsList db))"
  using pharmacyLoadQueue_lists [of db page] sorted_sortItems [of "activeItems db"]
    sorted_sortItems [of "preparedItemsList db"]
  by (simp add: sortItems_def mset_jsSort activeItems_def preparedItemsList_def)

text \<open>
  Witness for C6: of the two prepared items of the sample day the priority item q2
  comes before q1, although q1 was created earlier.
\<close>

theorem C6_pharmacy_listing_order_witness:
  "pharmacyQueue exDb = [ph1, ph2] \<and> priority ph2 \<and> \<not> priority ph1
   \<and> pq_createdAt ph1 < pq_createdAt ph2
   \<and> sortItems (preparedItemsList exDb) = [ph2, ph1]
   \<and> map pv_item (preparedItems (pharmacyLoadQueue exDb initialPage)) = [ph2, ph1]
   \<and> sorted_wrt (\<lambda>a b. (priority b \<longrightarrow> priority a)
                     \<and> (priority a = priority b \<longrightarrow> pq_createdAt a \<le> pq_createdAt b))
       [ph2, ph1]"
proof -
  have s: "sortItems (preparedItemsList exDb) = [ph2, ph1]"
    by (simp add: sortItems_def jsSort_def preparedItemsList_def comparePharmacy_def exDb_def
        ph1_def ph2_def)
  have p: "pharmacyQueue exDb = [ph1, ph2]" "priority ph2" "\<not> priority ph1"
    "pq_createdAt ph1 < pq_createdAt ph2"
    by (simp_all add: exDb_def ph1_def ph2_def)
  show ?thesis
    using C6_pharmacy_listing_order [of exDb initialPage] p
    unfolding s by simp
qed

text \<open>
  C7, the code at the failing input: the page starts with \<open>lastUpdateTime = 0\<close> and no
  refresh changes it. The first refresh records the watermark rx1,rx2 for item q3 and
  flags nothing; after the doctor has added rx3, the next refresh flags q3
  (\<open>hasUpdates\<close>) and moves the watermark on, but raises no notification, since
  \<^verbatim>\<open>loadQueue\<close> asks for \<^verbatim>\<open>lastUpdateTime > 0\<close>.
\<close>

theorem C7_flagged_without_notification:
  "lastUpdateTime initialPage = 0
   \<and> map hasUpdates (queueItems (pharmacyLoadQueue dbBefore initialPage)) = [False]
   \<and> previousPrescriptionIds (pharmacyLoadQueue dbBefore initialPage) ''q3'' = Some ''rx1,rx2''
   \<and> map hasUpdates (queueItems (pharmacyLoadQueue dbAfter (pharmacyLoadQueue dbBefore initialPage)))
       = [True]
   \<and> previousPrescriptionIds (pharmacyLoadQueue dbAfter (pharmacyLoadQueue dbBefore initialPage)) ''q3''
       = Some ''rx1,rx2,rx3''
   \<and> notification (pharmacyLoadQueue dbAfter (pharmacyLoadQueue dbBefore initialPage)) = None"
  unfolding ex_page1
  by (simp add: initialPage_def pharmacyLoadQueue_def sortItems_def jsSort_def enrichItem_def
      Let_def ex_lists ex_rx_after ex_joined)

text \<open>
  Counterexample to C8 as stated: for the line amounts 0.1 and 0.2 (the doubles these
  literals denote) the subtotal is the double 0.30000000000000004, not the sum of the
  two amounts; for one line of amount 1 with discount 5 and tax 5 the discount is the
  double nearest to 0.05, not 1 * 5 / 100, and the grand total is 0.9974999999999999,
  not 399/400.
\<close>

theorem C8_counterexample:
  "roundDouble (1 / 10) = Some double01 \<and> roundDouble (2 / 10) = Some double02
   \<and> isDouble double01 \<and> isDouble double02
   \<and> getBillSubtotal [amountLine double01, amountLine double02]
       = Some (1351079888211149 / 4503599627370496)
   \<and> getBillSubtotal [amountLine double01, amountLine double02]
       \<noteq> Some (sum_list (map bl_amount [amountLine double01, amountLine double02]))
   \<and> isDouble 1 \<and> isDouble 5
   \<and> getBillDiscountAmount [amountLine 1] 5 = Some (3602879701896397 / 72057594037927936)
   \<and> getBillDiscountAmount [amountLine 1] 5 \<noteq> Some (1 * 5 / 100)
   \<and> getBillTotal [amountLine 1] 5 5 = Some (8984681256604139 / 9007199254740992)
   \<and> getBillTotal [amountLine 1] 5 5 \<noteq> Some (399 / 400)"
proof -
  have i: "isDouble 1" "isDouble 5"
    by (simp_all add: isDouble_def double_eval)
  have n: "(1351079888211149 / 4503599627370496 :: real)
       \<noteq> sum_list (map bl_amount [amountLine double01, amountLine double02])"
    by (simp add: amountLine_def double01_def double02_def)
  have n2: "(3602879701896397 / 72057594037927936 :: real) \<noteq> 1 * 5 / 100"
    "(8984681256604139 / 9007199254740992 :: real) \<noteq> 399 / 400"
    by simp_all
  show ?thesis
    unfolding ex_calc1 ex_calc01 using ex_double01 i n n2 by simp
qed

text \<open>
  C8, amended: the calculator evaluates the four formulas in double arithmetic. The
  subtotal is the sum of the amounts taken from the left, each addition rounded; the
  discount is (subtotal * discountPercent) / 100, the tax is
  ((subtotal - discount) * taxPercent) / 100, applied after the discount, and the grand
  total is (subtotal - discount) + tax, each operation rounded to the nearest double.
  Whenever no operation involved rounds (its exact result is a double), the four
  values are the exact ones: the sum of the amounts, S * d / 100,
  (S - D) * t / 100 and S - D + T.
\<close>

theorem C8_calculator_in_doubles:
  "getBillSubtotal [] = Some 0
   \<and> getBillSubtotal (xs @ [x]) = jsAdd (getBillSubtotal xs) (Some (bl_amount x))
   \<and> getBillDiscountAmount xs d = jsDiv (jsMul (getBillSubtotal xs) (Some d)) (Some 100)
   \<and> getBillTaxAmount xs d t
       = jsDiv (jsMul (jsSub (getBillSubtotal xs) (getBillDiscountAmount xs d)) (Some t)) (Some 100)
   \<and> getBillTotal xs d t
       = jsAdd (jsSub (getBillSubtotal xs) (getBillDiscountAmount xs d)) (getBillTaxAmount xs d t)
   \<and> (let S = sum_list (map bl_amount xs); D = S * d / 100; T = (S - D) * t / 100
       in (sumsAreDoubles 0 (map bl_amount xs) \<longrightarrow> getBillSubtotal xs = Some S)
          \<and> (sumsAreDoubles 0 (map bl_amount xs) \<and> isDouble (S * d) \<and> isDouble D
               \<longrightarrow> getBillDiscountAmount xs d = Some D)
          \<and> (sumsAreDoubles 0 (map bl_amount xs) \<and> isDouble (S * d) \<and> isDouble D
               \<and> isDouble (S - D) \<and> isDouble ((S - D) * t) \<and> isDouble T
               \<longrightarrow> getBillTaxAmount xs d t = Some T)
          \<and> (sumsAreDoubles 0 (map bl_amount xs) \<and> isDouble (S * d) \<and> isDouble D
               \<and> isDouble (S - D) \<and> isDouble ((S - D) * t) \<and> isDouble T
               \<and> isDouble (S - D + T)
               \<longrightarrow> getBillTotal xs d t = Some (S - D + T)))"
proof -
  define S where "S = sum_list (map bl_amount xs)"
  define D where "D = S * d / 100"
  define T where "T = (S - D) * t / 100"
  have sub: "getBillSubtotal xs = Some S" if "sumsAreDoubles 0 (map bl_amount xs)"
    using that by (simp add: S_def getBillSubtotal_unrounded)
  have dis: "getBillDiscountAmount xs d = Some D"
    if "sumsAreDoubles 0 (map bl_amount xs)" "isDouble (S * d)" "isDouble D"
    using that sub
    by (simp add: getBillDiscountAmount_def jsMul_unrounded jsDiv_unrounded D_def)
  have tax: "getBillTaxAmount xs d t = Some T"
    if "sumsAreDoubles 0 (map bl_amount xs)" "isDouble (S * d)" "isDouble D"
      "isDouble (S - D)" "isDouble ((S - D) * t)" "isDouble T"
    using that sub dis
    by (simp add: getBillTaxAmount_def jsSub_unrounded jsMul_unrounded jsDiv_unrounded T_def)
  have tot: "getBillTotal xs d t = Some (S - D + T)"
    if "sumsAreDoubles 0 (map bl_amount xs)" "isDouble (S * d)" "isDouble D"
      "isDouble (S - D)" "isDouble ((S - D) * t)" "isDouble T" "isDouble (S - D + T)"
    using that sub dis tax
    by (simp add: getBillTotal_def jsSub_unrounded jsAdd_unrounded)
  have str: "getBillSubtotal [] = Some 0
   \<and> getBillSubtotal (xs @ [x]) = jsAdd (getBillSubtotal xs) (Some (bl_amount x))
   \<and> getBillDiscountAmount xs d = jsDiv (jsMul (getBillSubtotal xs) (Some d)) (Some 100)
   \<and> getBillTaxAmount xs d t
       = jsDiv (jsMul (jsSub (getBillSubtotal xs) (getBillDiscountAmount xs d)) (Some t)) (Some 100)
   \<and> getBillTotal xs d t
       = jsAdd (jsSub (getBillSubtotal xs) (getBillDiscountAmount xs d)) (getBillTaxAmount xs d t)"
    by (simp add: getBillSubtotal_snoc getBillDiscountAmount_def getBillTaxAmount_def
        getBillTotal_def) (simp add: getBillSubtotal_def)
  show ?thesis
    unfolding Let_def S_def [symmetric] D_def [symmetric] T_def [symmetric]
    using str sub dis tax tot by blast
qed

text \<open>
  Witness for the amended C8, the calculator scenario: for the lines [120, 80] with
  discount 10 and tax 5 no operation rounds, and the calculator gives 200, 20, 9 and
  189.
\<close>

theorem C8_calculator_in_doubles_witness:
  "map bl_amount [amountLine 120, amountLine 80] = [120, 80]
   \<and> sumsAreDoubles 0 [120, 80]
   \<and> isDouble (200 * 10) \<and> isDouble (200 * 10 / 100)
   \<and> isDouble (200 - 20) \<and> isDouble ((200 - 20) * 5) \<and> isDouble ((200 - 20) * 5 / 100)
   \<and> isDouble (200 - 20 + 9)
   \<and> getBillSubtotal [amountLine 120, amountLine 80] = Some 200
   \<and> getBillDiscountAmount [amountLine 120, amountLine 80] 10 = Some 20
   \<and> getBillTaxAmount [amountLine 120, amountLine 80] 10 5 = Some 9
   \<and> getBillTotal [amountLine 120, amountLine 80] 10 5 = Some 189"
proof -
  have m: "map bl_amount [amountLine 120, amountLine 80] = [120, 80]"
    by (simp add: amountLine_def)
  have s: "sumsAreDoubles 0 [120, 80]"
    using ex_doubles by simp
  have "let S = sum_list (map bl_amount [amountLine 120, amountLine 80]);
             D = S * 10 / 100; T = (S - D) * 5 / 100
         in (sumsAreDoubles 0 (map bl_amount [amountLine 120, amountLine 80])
               \<longrightarrow> getBillSubtotal [amountLine 120, amountLine 80] = Some S)
          \<and> (sumsAreDoubles 0 (map bl_amount [amountLine 120, amountLine 80])
               \<and> isDouble (S * 10) \<and> isDouble D
               \<longrightarrow> getBillDiscountAmount [amountLine 120, amountLine 80] 10 = Some D)
          \<and> (sumsAreDoubles 0 (map bl_amount [amountLine 120, amountLine 80])
               \<and> isDouble (S * 10) \<and> isDouble D
               \<and> isDouble (S - D) \<and> isDouble ((S - D) * 5) \<and> isDouble T
               \<longrightarrow> getBillTaxAmount [amountLine 120, amountLine 80] 10 5 = Some T)
          \<and> (sumsAreDoubles 0 (map bl_amount [amountLine 120, amountLine 80])
               \<and> isDouble (S * 10) \<and> isDouble D
               \<and> isDouble (S - D) \<and> isDouble ((S - D) * 5) \<and> isDouble T
               \<and> isDouble (S - D + T)
               \<longrightarrow> getBillTotal [amountLine 120, amountLine 80] 10 5 = Some (S - D + T))"
    using C8_calculator_in_doubles [of "[amountLine 120, amountLine 80]" "amountLine 0" 10 5]
    by blast
  then show ?thesis
    using ex_doubles s unfolding Let_def m by simp
qed

text \<open>
  Counterexample to C5 as stated: b0 is pending and in the store the loader reads; its
  linked appointment resolves to (700, New Patient, paid) against the stored
  (300, Consultation, pending); yet with another day selected the loader leaves b0 as
  it is: the resync runs over the items created on the selected day only.
\<close>

theorem C5_counterexample:
  "bill0 \<in> set (billingQueue exDb) \<and> bq_status bill0 = Pending
   \<and> (feeAmount bill0, feeType bill0, paymentStatus bill0) = (300, ''Consultation'', ''pending'')
   \<and> resolveLoadedFee exEnv exDb bill0 = (700, ''New Patient'', ''paid'')
   \<and> billingGetById (fst (billingLoadQueue exEnv 200 exDb)) (bq_id bill0) = Some bill0
   \<and> bill0 \<noteq> bill0\<lparr>feeAmount := 700, feeType := ''New Patient'', paymentStatus := ''paid'',
                        netAmount := 700\<rparr>"
proof -
  have m: "bill0 \<in> set (billingQueue exDb)"
    by (simp add: exDb_def)
  have day: "\<not> onSelectedDay exEnv 200 bill0"
    by (simp add: onSelectedDay_def toDateString_def msPerDay_def exEnv_def bill0_def)
  have g: "billingGetById (fst (billingLoadQueue exEnv 200 exDb)) (bq_id bill0) = Some bill0"
    using load_getById [OF exDb_ids m, of exEnv 200] day by simp
  have f: "bq_status bill0 = Pending"
    "(feeAmount bill0, feeType bill0, paymentStatus bill0) = (300, ''Consultation'', ''pending'')"
    "bill0 \<noteq> bill0\<lparr>feeAmount := 700, feeType := ''New Patient'', paymentStatus := ''paid'',
                        netAmount := 700\<rparr>"
    by (simp_all add: bill0_def)
  show ?thesis
    using m f ex0_resolve g by simp
qed

text \<open>
  C5, amended: the loader re-runs fee resolution for the pending items created on the
  selected day. Resolution takes the linked appointment when it carries a fee, else
  today's first appointment of the patient when it carries a fee (fee type and payment
  status from the appointment where it has them), else the stored values. If the fee
  amount, fee type or payment status resolved differs from the stored one, the stored
  item takes the three resolved values and \<open>netAmount = feeAmount - discountAmount\<close>
  (the subtraction of doubles; exact whenever the difference is a double), else it
  stays as it is; \<open>discountPercent\<close> and \<open>discountAmount\<close> are kept. Items created on
  another day and items in status paid or completed are never changed. (The store
  holds one record per id.)
\<close>

theorem C5_selected_day_fee_resync:
  assumes ids: "distinct (map bq_id (billingQueue db))"
      and mem: "b \<in> set (billingQueue db)"
  shows "(\<exists>b'. billingGetById (fst (billingLoadQueue env sel db)) (bq_id b) = Some b'
          \<and> discountPercent b' = discountPercent b \<and> discountAmount b' = discountAmount b
          \<and> (\<not> onSelectedDay env sel b \<or> bq_status b \<noteq> Pending \<longrightarrow> b' = b)
          \<and> (onSelectedDay env sel b \<and> bq_status b = Pending
               \<and> resolveLoadedFee env db b = (feeAmount b, feeType b, paymentStatus b)
               \<longrightarrow> b' = b)
          \<and> (\<forall>f t p. onSelectedDay env sel b \<and> bq_status b = Pending
               \<and> resolveLoadedFee env db b = (f, t, p)
               \<and> (f \<noteq> feeAmount b \<or> t \<noteq> feeType b \<or> p \<noteq> paymentStatus b)
               \<longrightarrow> b' = b\<lparr>feeAmount := f, feeType := t, paymentStatus := p,
                           netAmount := roundNearest (f - orZero (discountAmount b))\<rparr>))
     \<and> (\<forall>x. isDouble x \<longrightarrow> roundNearest x = x)
     \<and> onSelectedDay env sel b
         = (toDateString (tzOffset env) (bq_createdAt b) = toDateString (tzOffset env) sel)
     \<and> (\<forall>a fa. truthy (bq_appointmentId b)
            \<and> appointmentGetById db (orElse (bq_appointmentId b) []) = Some a
            \<and> apt_feeAmount a = Some fa
            \<longrightarrow> resolveLoadedFee env db b
                = (fa, orElse (apt_feeType a) (feeType b),
                   orElse (apt_feeStatus a) (paymentStatus b)))
     \<and> (\<forall>a fa. \<not> (\<exists>a0 f0. truthy (bq_appointmentId b)
                      \<and> appointmentGetById db (orElse (bq_appointmentId b) []) = Some a0
                      \<and> apt_feeAmount a0 = Some f0)
            \<and> todayAppointment env db (bq_patientId b) = Some a \<and> apt_feeAmount a = Some fa
            \<longrightarrow> resolveLoadedFee env db b
                = (fa, orElse (apt_feeType a) (feeType b),
                   orElse (apt_feeStatus a) (paymentStatus b)))
     \<and> (\<not> (\<exists>a0 f0. truthy (bq_appointmentId b)
                      \<and> appointmentGetById db (orElse (bq_appointmentId b) []) = Some a0
                      \<and> apt_feeAmount a0 = Some f0)
          \<and> (todayAppointment env db (bq_patientId b) = None
               \<or> (\<exists>a. todayAppointment env db (bq_patientId b) = Some a
                        \<and> apt_feeAmount a = None))
            \<longrightarrow> resolveLoadedFee env db b = (feeAmount b, feeType b, paymentStatus b))
     \<and> (\<forall>pid. todayAppointment env db pid
            = find (\<lambda>apt. startOfDay (tzOffset env) (now env) \<le> appointmentDate apt
                          \<and> appointmentDate apt \<le> endOfDay (tzOffset env) (now env))
                (filter (\<lambda>a. apt_patientId a = pid) (appointments db)))"
proof -
  let ?b' = "if onSelectedDay env sel b then resyncFields env db b b else b"
  have g: "billingGetById (fst (billingLoadQueue env sel db)) (bq_id b) = Some ?b'"
    by (rule load_getById [OF ids mem])
  have first: "\<exists>b'. billingGetById (fst (billingLoadQueue env sel db)) (bq_id b) = Some b'
          \<and> discountPercent b' = discountPercent b \<and> discountAmount b' = discountAmount b
          \<and> (\<not> onSelectedDay env sel b \<or> bq_status b \<noteq> Pending \<longrightarrow> b' = b)
          \<and> (onSelectedDay env sel b \<and> bq_status b = Pending
               \<and> resolveLoadedFee env db b = (feeAmount b, feeType b, paymentStatus b)
               \<longrightarrow> b' = b)
          \<and> (\<forall>f t p. onSelectedDay env sel b \<and> bq_status b = Pending
               \<and> resolveLoadedFee env db b = (f, t, p)
               \<and> (f \<noteq> feeAmount b \<or> t \<noteq> feeType b \<or> p \<noteq> paymentStatus b)
               \<longrightarrow> b' = b\<lparr>feeAmount := f, feeType := t, paymentStatus := p,
                           netAmount := roundNearest (f - orZero (discountAmount b))\<rparr>)"
    by (rule exI [of _ ?b']) (auto simp: g resyncFields_def split: prod.splits)
  have rn: "\<forall>x. isDouble x \<longrightarrow> roundNearest x = x"
    by (simp add: roundNearest_double)
  have day: "onSelectedDay env sel b
         = (toDateString (tzOffset env) (bq_createdAt b) = toDateString (tzOffset env) sel)"
    by (simp add: onSelectedDay_def)
  have r1: "\<forall>a fa. truthy (bq_appointmentId b)
            \<and> appointmentGetById db (orElse (bq_appointmentId b) []) = Some a
            \<and> apt_feeAmount a = Some fa
            \<longrightarrow> resolveLoadedFee env db b
                = (fa, orElse (apt_feeType a) (feeType b),
                   orElse (apt_feeStatus a) (paymentStatus b))"
    by (simp add: resolve_linked)
  have r2: "\<forall>a fa. \<not> (\<exists>a0 f0. truthy (bq_appointmentId b)
                      \<and> appointmentGetById db (orElse (bq_appointmentId b) []) = Some a0
                      \<and> apt_feeAmount a0 = Some f0)
            \<and> todayAppointment env db (bq_patientId b) = Some a \<and> apt_feeAmount a = Some fa
            \<longrightarrow> resolveLoadedFee env db b
                = (fa, orElse (apt_feeType a) (feeType b),
                   orElse (apt_feeStatus a) (paymentStatus b))"
    using resolve_not_linked [of b db env] by auto
  have r3: "\<not> (\<exists>a0 f0. truthy (bq_appointmentId b)
                      \<and> appointmentGetById db (orElse (bq_appointmentId b) []) = Some a0
                      \<and> apt_feeAmount a0 = Some f0)
          \<and> (todayAppointment env db (bq_patientId b) = None
               \<or> (\<exists>a. todayAppointment env db (bq_patientId b) = Some a
                        \<and> apt_feeAmount a = None))
            \<longrightarrow> resolveLoadedFee env db b = (feeAmount b, feeType b, paymentStatus b)"
    using resolve_not_linked [of b db env] by auto
  have t: "\<forall>pid. todayAppointment env db pid
            = find (\<lambda>apt. startOfDay (tzOffset env) (now env) \<le> appointmentDate apt
                          \<and> appointmentDate apt \<le> endOfDay (tzOffset env) (now env))
                (filter (\<lambda>a. apt_patientId a = pid) (appointments db))"
    by (simp add: todayAppointment_def appointmentGetByPatient_def)
  show ?thesis
    using first rn day r1 r2 r3 t by blast
qed

text \<open>
  Witness for the amended C5, on the second patient file with day 0 selected: b3 (no
  link) takes the 800 of today's first appointment of p3, passing over yesterday's,
  and its net amount becomes 800 - 60; b4 (linked to an appointment without fee) does
  the same; b1 takes the 700 of its linked appointment; the paid b5, the next-day b0
  and b6 (no appointment at all) stay as they are.
\<close>

theorem C5_selected_day_fee_resync_witness:
  "distinct (map bq_id (billingQueue exDb2))
   \<and> bill3 \<in> set (billingQueue exDb2) \<and> onSelectedDay exEnv 200 bill3 \<and> bq_status bill3 = Pending
   \<and> todayAppointment exEnv exDb2 ''p3'' = Some aptSched
   \<and> resolveLoadedFee exEnv exDb2 bill3 = (800, ''Special'', ''partial'')
   \<and> billingGetById (fst (billingLoadQueue exEnv 200 exDb2)) ''b3''
       = Some (bill3\<lparr>feeAmount := 800, feeType := ''Special'', paymentStatus := ''partial'',
                      netAmount := 740\<rparr>)
   \<and> discountAmount bill3 = Some 60
   \<and> resolveLoadedFee exEnv exDb2 bill4 = (800, ''Special'', ''partial'')
   \<and> billingGetById (fst (billingLoadQueue exEnv 200 exDb2)) ''b4''
       = Some (bill4\<lparr>feeAmount := 800, feeType := ''Special'', paymentStatus := ''partial'',
                      netAmount := 800\<rparr>)
   \<and> resolveLoadedFee exEnv exDb2 bill1 = (700, ''New Patient'', ''paid'')
   \<and> billingGetById (fst (billingLoadQueue exEnv 200 exDb2)) ''b1''
       = Some (bill1\<lparr>feeAmount := 700, feeType := ''New Patient'', paymentStatus := ''paid'',
                      netAmount := 670\<rparr>)
   \<and> bq_status bill5 = Paid \<and> onSelectedDay exEnv 200 bill5
   \<and> resolveLoadedFee exEnv exDb2 bill5 = (700, ''New Patient'', ''paid'')
   \<and> billingGetById (fst (billingLoadQueue exEnv 200 exDb2)) ''b5'' = Some bill5
   \<and> bq_status bill0 = Pending \<and> \<not> onSelectedDay exEnv 200 bill0
   \<and> billingGetById (fst (billingLoadQueue exEnv 200 exDb2)) ''b0'' = Some bill0
   \<and> resolveLoadedFee exEnv exDb2 bill6 = (300, ''Follow Up'', ''pending'')
   \<and> billingGetById (fst (billingLoadQueue exEnv 200 exDb2)) ''b6'' = Some bill6"
proof -
  let ?db' = "fst (billingLoadQueue exEnv 200 exDb2)"
  have st: "bq_status bill1 = Pending" "bq_status bill3 = Pending" "bq_status bill4 = Pending"
    "bq_status bill5 = Paid" "bq_status bill0 = Pending" "bq_status bill6 = Pending"
    by (simp_all add: bill1_def bill3_def bill4_def bill5_def bill0_def bill6_def)
  have id: "bq_id bill1 = ''b1''" "bq_id bill3 = ''b3''" "bq_id bill4 = ''b4''"
    "bq_id bill5 = ''b5''" "bq_id bill0 = ''b0''" "bq_id bill6 = ''b6''"
    by (simp_all add: bill1_def bill3_def bill4_def bill5_def bill0_def bill6_def)
  have stored: "feeAmount bill1 = 300" "feeAmount bill3 = 300" "feeAmount bill4 = 300"
    "(feeAmount bill6, feeType bill6, paymentStatus bill6) = (300, ''Follow Up'', ''pending'')"
    "orZero (discountAmount bill1) = 30" "orZero (discountAmount bill3) = 60"
    "orZero (discountAmount bill4) = 0" "discountAmount bill3 = Some 60"
    by (simp_all add: orZero_def bill1_def bill3_def bill4_def bill6_def)
  have lnk: "\<not> truthy (bq_appointmentId bill3)" "\<not> truthy (bq_appointmentId bill6)"
    "truthy (bq_appointmentId bill1)" "truthy (bq_appointmentId bill4)"
    "truthy (bq_appointmentId bill5)"
    "orElse (bq_appointmentId bill1) [] = ''a1''" "orElse (bq_appointmentId bill4) [] = ''a2''"
    "orElse (bq_appointmentId bill5) [] = ''a1''"
    "bq_patientId bill3 = ''p3''" "bq_patientId bill4 = ''p3''" "bq_patientId bill6 = ''p4''"
    by (simp_all add: truthy_def orElse_def bill1_def bill3_def bill4_def bill5_def bill6_def)
  have apt: "apt_feeAmount aptFee = Some 700" "apt_feeType aptFee = Some ''New Patient''"
    "apt_feeStatus aptFee = Some ''paid''" "apt_feeAmount aptNoFee = None"
    "apt_feeAmount aptSched = Some 800" "apt_feeType aptSched = Some ''Special''"
    "apt_feeStatus aptSched = Some ''partial''"
    by (simp_all add: aptFee_def aptNoFee_def aptSched_def)
  note c1 = C5_selected_day_fee_resync [OF ex2_ids ex2_mem(1), of exEnv 200]
  note c0 = C5_selected_day_fee_resync [OF ex2_ids ex2_mem(2), of exEnv 200]
  note c3 = C5_selected_day_fee_resync [OF ex2_ids ex2_mem(3), of exEnv 200]
  note c4 = C5_selected_day_fee_resync [OF ex2_ids ex2_mem(4), of exEnv 200]
  note c5 = C5_selected_day_fee_resync [OF ex2_ids ex2_mem(5), of exEnv 200]
  note c6 = C5_selected_day_fee_resync [OF ex2_ids ex2_mem(6), of exEnv 200]
  have rn: "roundNearest 670 = 670" "roundNearest 740 = 740" "roundNearest 800 = 800"
    using c3 [THEN conjunct2, THEN conjunct1] ex2_doubles by blast+
  have days: "onSelectedDay exEnv 200 bill1" "\<not> onSelectedDay exEnv 200 bill0"
    "onSelectedDay exEnv 200 bill3" "onSelectedDay exEnv 200 bill4"
    "onSelectedDay exEnv 200 bill5" "onSelectedDay exEnv 200 bill6"
    unfolding c1 [THEN conjunct2, THEN conjunct2, THEN conjunct1] c0 [THEN conjunct2, THEN conjunct2, THEN conjunct1] c3 [THEN conjunct2, THEN conjunct2, THEN conjunct1] c4 [THEN conjunct2, THEN conjunct2, THEN conjunct1] c5 [THEN conjunct2, THEN conjunct2, THEN conjunct1] c6 [THEN conjunct2, THEN conjunct2, THEN conjunct1]
    by (simp_all add: toDateString_def msPerDay_def exEnv_def bill1_def
      bill0_def bill3_def bill4_def bill5_def bill6_def)
  have today3: "todayAppointment exEnv exDb2 ''p3'' = Some aptSched"
    unfolding c3 [THEN conjunct2, THEN conjunct2, THEN conjunct2, THEN conjunct2, THEN conjunct2, THEN conjunct2, THEN spec]
    by (simp add: startOfDay_def endOfDay_def msPerDay_def exEnv_def exDb2_def
        aptFee_def aptNoFee_def aptOld_def aptSched_def aptProg_def)
  have today4: "todayAppointment exEnv exDb2 ''p4'' = None"
    unfolding c3 [THEN conjunct2, THEN conjunct2, THEN conjunct2, THEN conjunct2, THEN conjunct2, THEN conjunct2, THEN spec]
    by (simp add: startOfDay_def endOfDay_def msPerDay_def exEnv_def exDb2_def
        aptFee_def aptNoFee_def aptOld_def aptSched_def aptProg_def)
  have r1: "resolveLoadedFee exEnv exDb2 bill1 = (700, ''New Patient'', ''paid'')"
    using c1 [THEN conjunct2, THEN conjunct2, THEN conjunct2, THEN conjunct1,
        THEN spec, THEN spec, of aptFee 700] lnk ex2_linked apt
    by (simp add: orElse_def)
  have r5: "resolveLoadedFee exEnv exDb2 bill5 = (700, ''New Patient'', ''paid'')"
    using c5 [THEN conjunct2, THEN conjunct2, THEN conjunct2, THEN conjunct1,
        THEN spec, THEN spec, of aptFee 700] lnk ex2_linked apt
    by (simp add: orElse_def)
  have r3: "resolveLoadedFee exEnv exDb2 bill3 = (800, ''Special'', ''partial'')"
    using c3 [THEN conjunct2, THEN conjunct2, THEN conjunct2, THEN conjunct2, THEN conjunct1,
        THEN spec, THEN spec, of aptSched 800] lnk today3 apt
    by (simp add: orElse_def)
  have r4: "resolveLoadedFee exEnv exDb2 bill4 = (800, ''Special'', ''partial'')"
    using c4 [THEN conjunct2, THEN conjunct2, THEN conjunct2, THEN conjunct2, THEN conjunct1,
        THEN spec, THEN spec, of aptSched 800] lnk ex2_linked today3 apt
    by (simp add: orElse_def)
  have r6: "resolveLoadedFee exEnv exDb2 bill6 = (300, ''Follow Up'', ''pending'')"
    using c6 [THEN conjunct2, THEN conjunct2, THEN conjunct2, THEN conjunct2, THEN conjunct2, THEN conjunct1] lnk today4 stored(4)
    by simp
  have g3: "billingGetById ?db' ''b3''
       = Some (bill3\<lparr>feeAmount := 800, feeType := ''Special'', paymentStatus := ''partial'',
                      netAmount := 740\<rparr>)"
    using c3 [THEN conjunct1] days(3) st(2) r3 stored rn
    by (auto simp: id)
  have g4: "billingGetById ?db' ''b4''
       = Some (bill4\<lparr>feeAmount := 800, feeType := ''Special'', paymentStatus := ''partial'',
                      netAmount := 800\<rparr>)"
    using c4 [THEN conjunct1] days(4) st(3) r4 stored rn
    by (auto simp: id)
  have g1: "billingGetById ?db' ''b1''
       = Some (bill1\<lparr>feeAmount := 700, feeType := ''New Patient'', paymentStatus := ''paid'',
                      netAmount := 670\<rparr>)"
    using c1 [THEN conjunct1] days(1) st(1) r1 stored rn
    by (auto simp: id)
  have g5: "billingGetById ?db' ''b5'' = Some bill5"
    using c5 [THEN conjunct1] st(4) by (auto simp: id)
  have g0: "billingGetById ?db' ''b0'' = Some bill0"
    using c0 [THEN conjunct1] days(2) by (auto simp: id)
  have g6: "billingGetById ?db' ''b6'' = Some bill6"
    using c6 [THEN conjunct1] days(6) st(6) r6 stored(4) by (auto simp: id)
  show ?thesis
    using ex2_ids ex2_mem(3) days st today3 r1 r3 r4 r5 r6 stored(8) g3 g4 g1 g5 g0 g6
    by simp
qed

end
